theory Spec2Isabelle
  imports Main "HOL-Library.Word" "HOL-Library.Monad_Syntax"
begin

unbundle bit_operations_syntax

section \<open>Machine integers and kernel helpers\<close>

type_synonym u8 = "8 word"
type_synonym u16 = "16 word"
type_synonym u32 = "32 word"
type_synonym u64 = "64 word"

text \<open>
  \<open>do_div(n, base)\<close> is a Linux macro (asm-generic/div64.h), not part of the driver
  source. Its contract there: the dividend is a 64-bit unsigned value, the divisor is
  converted to \<open>uint32_t\<close>, and \<open>n\<close> is replaced by the quotient. A zero divisor
  traps; the model returns \<open>None\<close> for it.
\<close>

definition do_div :: "u64 \<Rightarrow> u64 \<Rightarrow> u64 option" where
  "do_div n base =
     (let b = (ucast base :: u32)
      in if b = 0 then None else Some (n div ucast b))"

text \<open>
  \<open>clamp_t(uint32_t, val, lo, hi)\<close> (linux/minmax.h): all three operands are cast to
  \<open>uint32_t\<close> first, then \<open>min(max(val, lo), hi)\<close> is taken in that type.
\<close>

definition clamp_t_u32 :: "u64 \<Rightarrow> u64 \<Rightarrow> u64 \<Rightarrow> u32" where
  "clamp_t_u32 v lo hi = min (max (ucast v) (ucast lo)) (ucast hi)"

text \<open>\<open>min_t(uint64_t, a, b)\<close>.\<close>

definition min_t_u64 :: "u64 \<Rightarrow> u64 \<Rightarrow> u64" where
  "min_t_u64 a b = min a b"

section \<open>Timing calculator\<close>

text \<open>
  \<^verbatim>\<open>
  static u64 calculate_v4l2_cid_exposure(u64 hmax, u64 vmax, u64 shr, u64 svr, u64 offset) {
      u64 numerator;
      numerator = (vmax * (svr + 1) - shr) * hmax + offset;
      do_div(numerator, hmax);
      numerator = clamp_t(uint32_t, numerator, 0, 0xFFFFFFFF);
      return numerator;
  }
  \<close>
\<close>

definition calculate_v4l2_cid_exposure :: "u64 \<Rightarrow> u64 \<Rightarrow> u64 \<Rightarrow> u64 \<Rightarrow> u64 \<Rightarrow> u64 option" where
  "calculate_v4l2_cid_exposure hmax vmax shr svr offset =
     do {
       numerator \<leftarrow> do_div ((vmax * (svr + 1) - shr) * hmax + offset) hmax;
       Some (ucast (clamp_t_u32 numerator 0 0xFFFFFFFF))
     }"

text \<open>
  \<^verbatim>\<open>
  static void calculate_min_max_v4l2_cid_exposure(u64 hmax, u64 vmax, u64 min_shr, u64 svr,
          u64 offset, u64 *min_exposure, u64 *max_exposure) {
      u64 max_shr = (svr + 1) * vmax - 4;
      max_shr = min_t(uint64_t, max_shr, 0xFFFF);
      *min_exposure = calculate_v4l2_cid_exposure(hmax, vmax, max_shr, svr, offset);
      *max_exposure = calculate_v4l2_cid_exposure(hmax, vmax, min_shr, svr, offset);
  }
  \<close>
  The two out-parameters are returned as a pair \<open>(min_exposure, max_exposure)\<close>.
\<close>

definition calculate_min_max_v4l2_cid_exposure ::
    "u64 \<Rightarrow> u64 \<Rightarrow> u64 \<Rightarrow> u64 \<Rightarrow> u64 \<Rightarrow> (u64 \<times> u64) option" where
  "calculate_min_max_v4l2_cid_exposure hmax vmax min_shr svr offset =
     (let max_shr = (svr + 1) * vmax - 4;
          max_shr = min_t_u64 max_shr 0xFFFF
      in do {
        min_exposure \<leftarrow> calculate_v4l2_cid_exposure hmax vmax max_shr svr offset;
        max_exposure \<leftarrow> calculate_v4l2_cid_exposure hmax vmax min_shr svr offset;
        Some (min_exposure, max_exposure)
      })"

text \<open>
  \<^verbatim>\<open>
  static uint32_t calculate_shr(uint32_t exposure, uint32_t hmax, uint64_t vmax,
                                uint32_t svr, uint32_t offset) {
      uint64_t temp;
      uint32_t shr;
      temp = ((uint64_t)exposure * hmax - offset);
      do_div(temp, hmax);
      shr = (uint32_t)(vmax * (svr + 1) - temp);
      return shr;
  }
  \<close>
  \<open>svr + 1\<close> is computed in 32 bits before it is widened for the product.
\<close>

definition calculate_shr :: "u32 \<Rightarrow> u32 \<Rightarrow> u64 \<Rightarrow> u32 \<Rightarrow> u32 \<Rightarrow> u32 option" where
  "calculate_shr exposure hmax vmax svr offset =
     do {
       temp \<leftarrow> do_div (ucast exposure * ucast hmax - ucast offset) (ucast hmax);
       Some (ucast (vmax * ucast (svr + 1) - temp))
     }"

section \<open>Mode catalog\<close>

text \<open>\<open>struct v4l2_rect\<close>; the fields carry a prefix because \<open>width\<close> and \<open>height\<close>
  are fields of the mode as well.\<close>

record v4l2_rect =
  rect_left :: u32
  rect_top :: u32
  rect_width :: u32
  rect_height :: u32

text \<open>
  \<open>struct imx294_mode\<close>. The per-mode register table \<open>reg_list\<close> is literal
  initialisation data that no timing computation reads; it is left out of the record.
\<close>

record imx294_mode =
  width :: u32
  height :: u32
  min_HMAX :: u64
  min_VMAX :: u64
  default_HMAX :: u64
  default_VMAX :: u64
  VMAX_scale :: u64
  min_SHR :: u64
  integration_offset :: u32
  crop :: v4l2_rect

definition mode_01 :: imx294_mode where
  "mode_01 = \<lparr> width = 4144, height = 2184, min_HMAX = 1122, min_VMAX = 1111,
      default_HMAX = 1200, default_VMAX = 2500, VMAX_scale = 2, min_SHR = 5,
      integration_offset = 256,
      crop = \<lparr> rect_left = 36, rect_top = 20, rect_width = 4096, rect_height = 2160 \<rparr> \<rparr>"

definition mode_01A :: imx294_mode where
  "mode_01A = \<lparr> width = 4176, height = 2184, min_HMAX = 1192, min_VMAX = 1111,
      default_HMAX = 1200, default_VMAX = 2500, VMAX_scale = 2, min_SHR = 5,
      integration_offset = 361,
      crop = \<lparr> rect_left = 36, rect_top = 20, rect_width = 4096, rect_height = 2160 \<rparr> \<rparr>"

definition mode_01B :: imx294_mode where
  "mode_01B = \<lparr> width = 3872, height = 2180, min_HMAX = 1055, min_VMAX = 1111,
      default_HMAX = 1200, default_VMAX = 2500, VMAX_scale = 2, min_SHR = 5,
      integration_offset = 256,
      crop = \<lparr> rect_left = 20, rect_top = 20, rect_width = 3840, rect_height = 2160 \<rparr> \<rparr>"

definition mode_00 :: imx294_mode where
  "mode_00 = \<lparr> width = 3792, height = 2840, min_HMAX = 1024, min_VMAX = 1444,
      default_HMAX = 1875, default_VMAX = 1600, VMAX_scale = 2, min_SHR = 5,
      integration_offset = 551,
      crop = \<lparr> rect_left = 40, rect_top = 24, rect_width = 3704, rect_height = 2778 \<rparr> \<rparr>"

definition supported_modes_12bit :: "imx294_mode list" where
  "supported_modes_12bit = [mode_01, mode_01A, mode_01B, mode_00]"

section \<open>Supported media-bus codes\<close>

text \<open>The four 12-bit Bayer codes, with their values from \<open>media-bus-format.h\<close>.\<close>

definition MEDIA_BUS_FMT_SRGGB12_1X12 :: u32 where "MEDIA_BUS_FMT_SRGGB12_1X12 = 0x3012"
definition MEDIA_BUS_FMT_SGRBG12_1X12 :: u32 where "MEDIA_BUS_FMT_SGRBG12_1X12 = 0x3011"
definition MEDIA_BUS_FMT_SGBRG12_1X12 :: u32 where "MEDIA_BUS_FMT_SGBRG12_1X12 = 0x3010"
definition MEDIA_BUS_FMT_SBGGR12_1X12 :: u32 where "MEDIA_BUS_FMT_SBGGR12_1X12 = 0x3008"

definition codes :: "u32 list" where
  "codes = [MEDIA_BUS_FMT_SRGGB12_1X12, MEDIA_BUS_FMT_SGRBG12_1X12,
            MEDIA_BUS_FMT_SGBRG12_1X12, MEDIA_BUS_FMT_SBGGR12_1X12]"

text \<open>A read of a C array past its last element is a fault of the model, not a value.\<close>

datatype fault = Array_index_out_of_bounds nat

text \<open>
  \<^verbatim>\<open>
  for (i = 0; i < ARRAY_SIZE(codes); i++)
      if (codes[i] == code)
          break;
  \<close>
  The loop, started at index \<open>i\<close>; its value is the index at which it stops.
\<close>

function codes_scan :: "u32 \<Rightarrow> nat \<Rightarrow> nat" where
  "codes_scan code i =
     (if i < length codes
      then (if codes ! i = code then i else codes_scan code (i + 1))
      else i)"
  by pat_completeness auto
termination
  by (relation "measure (\<lambda>(code, i). length codes - i)") auto

declare codes_scan.simps [simp del]

text \<open>
  \<^verbatim>\<open>
  static u32 imx294_get_format_code(struct imx294 *imx294, u32 code)
  {
      unsigned int i;
      lockdep_assert_held(&imx294->mutex);
      for (...) ...
      return codes[i];
  }
  \<close>
\<close>

definition imx294_get_format_code :: "u32 \<Rightarrow> fault + u32" where
  "imx294_get_format_code code =
     (let i = codes_scan code 0
      in if i < length codes then Inr (codes ! i) else Inl (Array_index_out_of_bounds i))"

section \<open>Controls, device state and register transport\<close>

text \<open>Error numbers of \<open>errno.h\<close>; a C \<open>int\<close> status is modelled as \<open>int\<close>.\<close>

definition EIO :: int where "EIO = 5"
definition EINVAL :: int where "EINVAL = 22"
definition ENOMEM :: int where "ENOMEM = 12"
definition ENODEV :: int where "ENODEV = 19"

definition IMX294_REG_CHIP_ID :: u16 where "IMX294_REG_CHIP_ID = 0x3000"
definition IMX294_CHIP_ID :: u32 where "IMX294_CHIP_ID = 0x0000"
definition IMX294_XCLK_FREQ :: u32 where "IMX294_XCLK_FREQ = 24000000"
definition IMX294_REG_VMAX :: u16 where "IMX294_REG_VMAX = 0x30A9"
definition IMX294_VMAX_MAX :: u64 where "IMX294_VMAX_MAX = 0xfffff"
definition IMX294_REG_HMAX :: u16 where "IMX294_REG_HMAX = 0x30AC"
definition IMX294_HMAX_MAX :: int where "IMX294_HMAX_MAX = 0xffff"
definition IMX294_REG_HCOUNT1 :: u16 where "IMX294_REG_HCOUNT1 = 0x3084"
definition IMX294_REG_HCOUNT2 :: u16 where "IMX294_REG_HCOUNT2 = 0x3086"
definition IMX294_REG_PSSLVS1 :: u16 where "IMX294_REG_PSSLVS1 = 0x332C"
definition IMX294_REG_PSSLVS2 :: u16 where "IMX294_REG_PSSLVS2 = 0x334A"
definition IMX294_REG_PSSLVS3 :: u16 where "IMX294_REG_PSSLVS3 = 0x35B6"
definition IMX294_REG_PSSLVS4 :: u16 where "IMX294_REG_PSSLVS4 = 0x35B8"
definition IMX294_REG_PSSLVS0 :: u16 where "IMX294_REG_PSSLVS0 = 0x36BC"
definition IMX294_REG_SHR :: u16 where "IMX294_REG_SHR = 0x302C"
definition IMX294_EXPOSURE_MIN :: int where "IMX294_EXPOSURE_MIN = 52"
definition IMX294_EXPOSURE_STEP :: int where "IMX294_EXPOSURE_STEP = 1"
definition IMX294_EXPOSURE_DEFAULT :: int where "IMX294_EXPOSURE_DEFAULT = 1000"
definition IMX294_EXPOSURE_MAX :: int where "IMX294_EXPOSURE_MAX = 49865"
definition IMX294_REG_ANALOG_GAIN :: u16 where "IMX294_REG_ANALOG_GAIN = 0x300A"
definition IMX294_ANA_GAIN_MIN :: int where "IMX294_ANA_GAIN_MIN = 0"
definition IMX294_ANA_GAIN_MAX :: int where "IMX294_ANA_GAIN_MAX = 1957"
definition IMX294_ANA_GAIN_STEP :: int where "IMX294_ANA_GAIN_STEP = 1"
definition IMX294_ANA_GAIN_DEFAULT :: int where "IMX294_ANA_GAIN_DEFAULT = 0"

text \<open>The identifiers of the controls the driver registers; any other identifier
  (the firmware-node property controls, for instance) is \<open>V4L2_CID_OTHER\<close>.\<close>

datatype ctrl_id =
    V4L2_CID_EXPOSURE
  | V4L2_CID_ANALOGUE_GAIN
  | V4L2_CID_VBLANK
  | V4L2_CID_HBLANK
  | V4L2_CID_PIXEL_RATE
  | V4L2_CID_OTHER u32

text \<open>
  Modelled from the spec: \<open>struct v4l2_ctrl\<close> belongs to the control framework, whose
  source is not part of the driver. A control has a range, a step, a default and a
  current value (section 6, control surface).
\<close>

record v4l2_ctrl =
  minimum :: int
  maximum :: int
  step :: int
  default_value :: int
  val :: int

definition clamp_int :: "int \<Rightarrow> int \<Rightarrow> int \<Rightarrow> int" where
  "clamp_int x lo hi = min (max x lo) hi"

text \<open>
  Modelled from the spec: \<open>v4l2_ctrl_new_std\<close>, absent from the driver source, creates a
  control with the given range, step and default, its value being the default.
\<close>

definition v4l2_ctrl_new_std :: "int \<Rightarrow> int \<Rightarrow> int \<Rightarrow> int \<Rightarrow> v4l2_ctrl" where
  "v4l2_ctrl_new_std mn mx st df =
     \<lparr> minimum = mn, maximum = mx, step = st, default_value = df, val = df \<rparr>"

text \<open>
  Modelled from the spec: \<open>__v4l2_ctrl_modify_range\<close>, absent from the driver source.
  Section 4.3 describes its effect as re-ranging the control in place and clamping the
  current value into the new bounds if it falls outside. The model does exactly that; it
  does not call back into the driver.
\<close>

definition v4l2_ctrl_modify_range :: "v4l2_ctrl \<Rightarrow> int \<Rightarrow> int \<Rightarrow> int \<Rightarrow> int \<Rightarrow> v4l2_ctrl" where
  "v4l2_ctrl_modify_range c mn mx st df =
     c\<lparr> minimum := mn, maximum := mx, step := st, default_value := df,
        val := clamp_int (val c) mn mx \<rparr>"

text \<open>What \<open>pm_runtime_get_if_in_use\<close> can observe of the device.\<close>

datatype rpm_status = RPM_IN_USE | RPM_NOT_IN_USE | RPM_DISABLED

definition pm_runtime_get_if_in_use :: "rpm_status \<Rightarrow> int" where
  "pm_runtime_get_if_in_use r =
     (case r of RPM_IN_USE \<Rightarrow> 1 | RPM_NOT_IN_USE \<Rightarrow> 0 | RPM_DISABLED \<Rightarrow> - EINVAL)"

text \<open>
  \<open>struct imx294\<close> (the gain control lives only in the control handler of the source;
  \<open>analogue_gain\<close> stands for it), followed by the part of the world the driver talks to: the runtime-PM
  status of the device, the I2C frames sent so far (each frame is the byte buffer handed
  to \<open>i2c_master_send\<close>), the transfers that the bus fails (by their position in the
  sequence of transfers), and what the device answers to a register read (\<open>None\<close> when
  the read transfer fails).
\<close>

record imx294 =
  fmt_code :: u32
  pixel_rate :: v4l2_ctrl
  exposure :: v4l2_ctrl
  vblank :: v4l2_ctrl
  hblank :: v4l2_ctrl
  analogue_gain :: v4l2_ctrl
  mode :: imx294_mode
  HMAX :: u16
  VMAX :: u32
  streaming :: bool
  common_regs_written :: bool
  rpm :: rpm_status
  i2c_sent :: "u8 list list"
  i2c_fails :: "nat \<Rightarrow> bool"
  i2c_answer :: "u16 \<Rightarrow> nat \<Rightarrow> u8 list option"

text \<open>\<open>put_unaligned_be16(reg, buf)\<close>: the register address, high byte first.\<close>

definition put_unaligned_be16 :: "u16 \<Rightarrow> u8 list" where
  "put_unaligned_be16 reg = [ucast (drop_bit 8 reg), ucast reg]"

text \<open>\<open>i2c_master_send\<close>: the frame goes on the bus; the status is 0 or \<open>-EIO\<close>, as the
  three write helpers report it.\<close>

definition i2c_master_send :: "imx294 \<Rightarrow> u8 list \<Rightarrow> int \<times> imx294" where
  "i2c_master_send st buf =
     (if i2c_fails st (length (i2c_sent st)) then - EIO else 0,
      st\<lparr> i2c_sent := i2c_sent st @ [buf] \<rparr>)"

text \<open>
  \<^verbatim>\<open>
  put_unaligned_be16(reg, buf);
  buf[2]  = val;
  if (i2c_master_send(client, buf, 3) != 3) return -EIO;
  return 0;
  \<close>
  and the same with \<open>buf[3] = val>>8\<close> and \<open>buf[4] = val>>16\<close> for the wider writes;
  \<open>buf_1byte\<close>, \<open>buf_2byte\<close> and \<open>buf_3byte\<close> are the buffers they fill.
\<close>

definition buf_1byte :: "u16 \<Rightarrow> u8 \<Rightarrow> u8 list" where
  "buf_1byte reg v = put_unaligned_be16 reg @ [v]"

definition buf_2byte :: "u16 \<Rightarrow> u16 \<Rightarrow> u8 list" where
  "buf_2byte reg v = put_unaligned_be16 reg @ [ucast v, ucast (drop_bit 8 v)]"

definition buf_3byte :: "u16 \<Rightarrow> u32 \<Rightarrow> u8 list" where
  "buf_3byte reg v =
     put_unaligned_be16 reg @ [ucast v, ucast (drop_bit 8 v), ucast (drop_bit 16 v)]"

definition imx294_write_reg_1byte :: "imx294 \<Rightarrow> u16 \<Rightarrow> u8 \<Rightarrow> int \<times> imx294" where
  "imx294_write_reg_1byte st reg v = i2c_master_send st (buf_1byte reg v)"

definition imx294_write_reg_2byte :: "imx294 \<Rightarrow> u16 \<Rightarrow> u16 \<Rightarrow> int \<times> imx294" where
  "imx294_write_reg_2byte st reg v = i2c_master_send st (buf_2byte reg v)"

definition imx294_write_reg_3byte :: "imx294 \<Rightarrow> u16 \<Rightarrow> u32 \<Rightarrow> int \<times> imx294" where
  "imx294_write_reg_3byte st reg v = i2c_master_send st (buf_3byte reg v)"

text \<open>
  \<^verbatim>\<open>
  static int imx294_read_reg(struct imx294 *imx294, u16 reg, u32 len, u32 *val)
  \<close>
  \<open>data_buf\<close> is four zero bytes whose last \<open>len\<close> bytes the device fills;
  \<open>get_unaligned_be32\<close> reads them high byte first. The second component is what is
  stored through \<open>val\<close>: nothing on the error paths.
\<close>

definition get_unaligned_be32 :: "u8 list \<Rightarrow> u32" where
  "get_unaligned_be32 bs = foldl (\<lambda>acc b. push_bit 8 acc OR ucast b) 0 bs"

definition imx294_read_reg :: "imx294 \<Rightarrow> u16 \<Rightarrow> nat \<Rightarrow> int \<times> u32 option" where
  "imx294_read_reg st reg len =
     (if len > 4 then (- EINVAL, None)
      else case i2c_answer st reg len of
             None \<Rightarrow> (- EIO, None)
           | Some bs \<Rightarrow> (0, Some (get_unaligned_be32 (replicate (4 - len) 0 @ take len bs))))"

section \<open>Control state\<close>

text \<open>
  \<open>imx294_set_ctrl\<close>, lines 946-1047 of the source, is the handler the control framework
  calls with the control (its identifier and its new value \<open>ctrl->val\<close>, an \<open>s32\<close>). The
  local \<open>current_exposure\<close> of the VBLANK block is read before anything is stored in it;
  the model takes that indeterminate value as the argument \<open>uninit\<close>. The debug
  printing is left out. A division by zero in \<open>do_div\<close> makes the result \<open>None\<close>.
\<close>

definition imx294_set_ctrl :: "ctrl_id \<Rightarrow> u32 \<Rightarrow> u64 \<Rightarrow> imx294 \<Rightarrow> (int \<times> imx294) option" where
  "imx294_set_ctrl cid ctrl_val uninit st0 =
     (let m = mode st0 in
      do {
        st \<leftarrow> (if cid = V4L2_CID_VBLANK then
                do {
                  vmax \<leftarrow> do_div (ucast (height m) + scast ctrl_val) (VMAX_scale m);
                  let st1 = st0\<lparr> VMAX := ucast vmax \<rparr>;
                  (min_exposure, max_exposure) \<leftarrow>
                    calculate_min_max_v4l2_cid_exposure (ucast (HMAX st1)) (ucast (VMAX st1))
                      (min_SHR m) 0 (ucast (integration_offset m));
                  let current_exposure =
                    (ucast (clamp_t_u32 uninit min_exposure max_exposure) :: u64);
                  Some (st1\<lparr> exposure :=
                    v4l2_ctrl_modify_range (exposure st1) (sint min_exposure)
                      (sint max_exposure) 1 (sint current_exposure) \<rparr>)
                }
              else Some st0);
        if pm_runtime_get_if_in_use (rpm st) = 0 then Some (0, st)
        else
          (case cid of
             V4L2_CID_EXPOSURE \<Rightarrow>
               do {
                 shr \<leftarrow> calculate_shr ctrl_val (ucast (HMAX st)) (ucast (VMAX st)) 0
                          (integration_offset m);
                 Some (imx294_write_reg_2byte st IMX294_REG_SHR (ucast shr))
               }
           | V4L2_CID_ANALOGUE_GAIN \<Rightarrow>
               Some (imx294_write_reg_2byte st IMX294_REG_ANALOG_GAIN (ucast ctrl_val))
           | V4L2_CID_VBLANK \<Rightarrow>
               do {
                 tmp \<leftarrow> do_div (ucast (height m) + scast ctrl_val) (VMAX_scale m);
                 let st = st\<lparr> VMAX := ucast tmp \<rparr>;
                 let (ret, st) = imx294_write_reg_3byte st IMX294_REG_VMAX (VMAX st);
                 let vblk = (ucast (VMAX st) :: u64) - min_VMAX m;
                 let (ret, st) = imx294_write_reg_2byte st IMX294_REG_PSSLVS1 (ucast vblk);
                 let (ret, st) = imx294_write_reg_2byte st IMX294_REG_PSSLVS2 (ucast vblk);
                 let (ret, st) = imx294_write_reg_2byte st IMX294_REG_PSSLVS3 (ucast vblk);
                 let (ret, st) =
                   (if vblk \<le> 5 then imx294_write_reg_2byte st IMX294_REG_PSSLVS4 0
                    else imx294_write_reg_2byte st IMX294_REG_PSSLVS4 (ucast (vblk - 5)));
                 Some (imx294_write_reg_2byte st IMX294_REG_PSSLVS0 (ucast vblk))
               }
           | V4L2_CID_HBLANK \<Rightarrow>
               do {
                 pixel_rate \<leftarrow> do_div (ucast (width m) * 72000000) (min_HMAX m);
                 hmax \<leftarrow> do_div (ucast (width m + ctrl_val) * 72000000) pixel_rate;
                 let st = st\<lparr> HMAX := ucast hmax \<rparr>;
                 let (ret, st) = imx294_write_reg_2byte st IMX294_REG_HMAX (ucast hmax);
                 let (ret, st) = imx294_write_reg_2byte st IMX294_REG_HCOUNT1 (ucast hmax);
                 Some (imx294_write_reg_2byte st IMX294_REG_HCOUNT2 (ucast hmax))
               }
           | _ \<Rightarrow> Some (- EINVAL, st))
      })"

text \<open>
  Modelled from the spec: \<open>__v4l2_ctrl_s_ctrl\<close>, absent from the driver source. It is the
  setter of the control surface: the value, brought into the control's range, is handed
  to the driver's handler and becomes the control's value when the handler reports
  success. \<open>get\<close> and \<open>upd\<close> select the control inside the device structure.
\<close>

definition v4l2_ctrl_s_ctrl ::
    "(imx294 \<Rightarrow> v4l2_ctrl) \<Rightarrow> ((v4l2_ctrl \<Rightarrow> v4l2_ctrl) \<Rightarrow> imx294 \<Rightarrow> imx294) \<Rightarrow> ctrl_id
       \<Rightarrow> int \<Rightarrow> u64 \<Rightarrow> imx294 \<Rightarrow> (int \<times> imx294) option" where
  "v4l2_ctrl_s_ctrl get upd cid v uninit st =
     (let v' = clamp_int v (minimum (get st)) (maximum (get st))
      in do {
        (ret, st') \<leftarrow> imx294_set_ctrl cid (word_of_int v') uninit st;
        Some (ret, if ret = 0 then upd (\<lambda>c. c\<lparr> val := v' \<rparr>) st' else st')
      })"

text \<open>
  \<open>imx294_set_framing_limits\<close>, lines 1180-1219. The \<open>u64\<close> arguments of
  \<open>__v4l2_ctrl_modify_range\<close> are received as \<open>s64\<close> and those of \<open>__v4l2_ctrl_s_ctrl\<close>
  as \<open>s32\<close>. The local \<open>pixel_rate\<close> of the source is \<open>rate\<close> here, the name
  \<open>pixel_rate\<close> being the control.
\<close>

definition imx294_set_framing_limits :: "u64 \<Rightarrow> imx294 \<Rightarrow> imx294 option" where
  "imx294_set_framing_limits uninit st0 =
     (let m = mode st0;
          st = st0\<lparr> VMAX := ucast (default_VMAX m) \<rparr>;
          st = st\<lparr> HMAX := ucast (default_HMAX m) \<rparr>
      in do {
        rate \<leftarrow> do_div (ucast (width m) * 72000000 * 2) (min_HMAX m);
        def_hblank \<leftarrow> do_div (default_HMAX m * rate) 72000000;
        let def_hblank = def_hblank - ucast (width m);
        let st = st\<lparr> hblank :=
                   v4l2_ctrl_modify_range (hblank st) 0 IMX294_HMAX_MAX 1 (sint def_hblank) \<rparr>;
        (ret, st) \<leftarrow> v4l2_ctrl_s_ctrl hblank hblank_update V4L2_CID_HBLANK
                        (sint (ucast def_hblank :: u32)) uninit st;
        let def_vblank = default_VMAX m * VMAX_scale m - ucast (height m);
        let st = st\<lparr> vblank :=
                   v4l2_ctrl_modify_range (vblank st)
                     (sint (min_VMAX m * VMAX_scale m - ucast (height m)))
                     (sint (IMX294_VMAX_MAX * VMAX_scale m - ucast (height m)))
                     1 (sint def_vblank) \<rparr>;
        (ret, st) \<leftarrow> v4l2_ctrl_s_ctrl vblank vblank_update V4L2_CID_VBLANK
                        (sint (ucast def_vblank :: u32)) uninit st;
        Some (st\<lparr> pixel_rate :=
                v4l2_ctrl_modify_range (pixel_rate st) (sint rate) (sint rate) 1 (sint rate) \<rparr>)
      })"

section \<open>Device setup\<close>

text \<open>
  What the platform answers to the calls \<open>imx294_probe\<close> makes outside the driver: each
  field is the status (or the result) of one call, 0 for success.
\<close>

record platform =
  devm_kzalloc_ok :: bool
  of_match_device_ok :: bool
  devm_clk_get_err :: int
  clk_get_rate :: u32
  devm_regulator_bulk_get :: int
  regulator_bulk_enable :: int
  clk_prepare_enable :: int
  v4l2_ctrl_handler_init :: int
  ctrl_hdlr_error :: int
  v4l2_fwnode_device_parse :: int
  v4l2_ctrl_new_fwnode_properties :: int
  media_entity_pads_init :: int
  v4l2_async_register_subdev_sensor :: int

text \<open>The structure as \<open>devm_kzalloc\<close> returns it: every field zero, runtime PM not
  yet enabled, nothing sent; \<open>fails\<close> and \<open>answer\<close> are the bus and the device.\<close>

definition zero_ctrl :: v4l2_ctrl where
  "zero_ctrl = \<lparr> minimum = 0, maximum = 0, step = 0, default_value = 0, val = 0 \<rparr>"

definition zero_mode :: imx294_mode where
  "zero_mode = \<lparr> width = 0, height = 0, min_HMAX = 0, min_VMAX = 0, default_HMAX = 0,
      default_VMAX = 0, VMAX_scale = 0, min_SHR = 0, integration_offset = 0,
      crop = \<lparr> rect_left = 0, rect_top = 0, rect_width = 0, rect_height = 0 \<rparr> \<rparr>"

definition devm_kzalloc :: "(nat \<Rightarrow> bool) \<Rightarrow> (u16 \<Rightarrow> nat \<Rightarrow> u8 list option) \<Rightarrow> imx294" where
  "devm_kzalloc fails answer =
     \<lparr> fmt_code = 0, pixel_rate = zero_ctrl, exposure = zero_ctrl, vblank = zero_ctrl,
       hblank = zero_ctrl, analogue_gain = zero_ctrl, mode = zero_mode, HMAX = 0, VMAX = 0,
       streaming = False, common_regs_written = False, rpm = RPM_DISABLED, i2c_sent = [],
       i2c_fails = fails, i2c_answer = answer \<rparr>"

text \<open>
  \<^verbatim>\<open>
  static int imx294_power_on(struct device *dev)     /* lines 1379-1410 */
  static int imx294_power_off(struct device *dev)    /* lines 1412-1426 */
  \<close>
\<close>

definition imx294_power_on :: "platform \<Rightarrow> int" where
  "imx294_power_on pf =
     (let ret = regulator_bulk_enable pf in
      if ret \<noteq> 0 then ret
      else let ret = clk_prepare_enable pf in
        if ret \<noteq> 0 then ret else 0)"

definition imx294_power_off :: "imx294 \<Rightarrow> imx294" where
  "imx294_power_off st = st\<lparr> common_regs_written := False \<rparr>"

text \<open>
  \<^verbatim>\<open>
  /* Verify chip ID */
  static int imx294_identify_module(struct imx294 *imx294, u32 expected_id)
  {
      ...
      ret = imx294_read_reg(imx294, IMX294_REG_CHIP_ID, 1, &val);
      if (ret) {
          dev_err(&client->dev, "failed to read chip id %x, with error %d\n",
                  expected_id, ret);
          return ret;
      }
      dev_info(&client->dev, "Device found\n");
      return 0;
  }
  \<close>
\<close>

definition imx294_identify_module :: "imx294 \<Rightarrow> u32 \<Rightarrow> int" where
  "imx294_identify_module st expected_id =
     (let (ret, v) = imx294_read_reg st IMX294_REG_CHIP_ID 1 in
      if ret \<noteq> 0 then ret else 0)"

definition imx294_set_default_format :: "imx294 \<Rightarrow> imx294" where
  "imx294_set_default_format st =
     st\<lparr> mode := supported_modes_12bit ! 0, fmt_code := MEDIA_BUS_FMT_SGBRG12_1X12 \<rparr>"

text \<open>\<open>imx294_init_controls\<close>, lines 1563-1634.\<close>

definition imx294_init_controls :: "platform \<Rightarrow> u64 \<Rightarrow> imx294 \<Rightarrow> (int \<times> imx294) option" where
  "imx294_init_controls pf uninit st =
     (let ret = v4l2_ctrl_handler_init pf in
      if ret \<noteq> 0 then Some (ret, st)
      else
        let st = st\<lparr> pixel_rate := v4l2_ctrl_new_std 0xffff 0xffff 1 0xffff \<rparr>;
            st = st\<lparr> vblank := v4l2_ctrl_new_std 0 0xfffff 1 0 \<rparr>;
            st = st\<lparr> hblank := v4l2_ctrl_new_std 0 0xffff 1 0 \<rparr>;
            st = st\<lparr> exposure := v4l2_ctrl_new_std IMX294_EXPOSURE_MIN IMX294_EXPOSURE_MAX
                                   IMX294_EXPOSURE_STEP IMX294_EXPOSURE_DEFAULT \<rparr>;
            st = st\<lparr> analogue_gain := v4l2_ctrl_new_std IMX294_ANA_GAIN_MIN IMX294_ANA_GAIN_MAX
                                   IMX294_ANA_GAIN_STEP IMX294_ANA_GAIN_DEFAULT \<rparr>
        in
          if ctrl_hdlr_error pf \<noteq> 0 then Some (ctrl_hdlr_error pf, st)
          else if v4l2_fwnode_device_parse pf \<noteq> 0 then Some (v4l2_fwnode_device_parse pf, st)
          else if v4l2_ctrl_new_fwnode_properties pf \<noteq> 0
            then Some (v4l2_ctrl_new_fwnode_properties pf, st)
          else
            do {
              st \<leftarrow> imx294_set_framing_limits uninit st;
              Some (0, st)
            })"

text \<open>
  \<open>imx294_probe\<close>, lines 1656-1760. The result is the status, whether the sub-device
  has been registered (\<open>v4l2_async_register_subdev_sensor\<close> succeeded), and the device
  structure. After \<open>pm_runtime_enable\<close> and \<open>pm_runtime_idle\<close> nothing holds the device
  in use.
\<close>

definition imx294_probe :: "platform \<Rightarrow> u64 \<Rightarrow> imx294 \<Rightarrow> (int \<times> bool \<times> imx294) option" where
  "imx294_probe pf uninit st =
     (if \<not> devm_kzalloc_ok pf then Some (- ENOMEM, False, st)
      else if \<not> of_match_device_ok pf then Some (- ENODEV, False, st)
      else if devm_clk_get_err pf \<noteq> 0 then Some (devm_clk_get_err pf, False, st)
      else if clk_get_rate pf \<noteq> IMX294_XCLK_FREQ then Some (- EINVAL, False, st)
      else if devm_regulator_bulk_get pf \<noteq> 0 then Some (devm_regulator_bulk_get pf, False, st)
      else if imx294_power_on pf \<noteq> 0 then Some (imx294_power_on pf, False, st)
      else
        let ret = imx294_identify_module st IMX294_CHIP_ID in
        if ret \<noteq> 0 then Some (ret, False, imx294_power_off st)
        else
          let st = imx294_set_default_format st;
              st = st\<lparr> rpm := RPM_NOT_IN_USE \<rparr>
          in do {
            (ret, st) \<leftarrow> imx294_init_controls pf uninit st;
            if ret \<noteq> 0 then Some (ret, False, imx294_power_off st)
            else if media_entity_pads_init pf \<noteq> 0
              then Some (media_entity_pads_init pf, False, imx294_power_off st)
            else if v4l2_async_register_subdev_sensor pf < 0
              then Some (v4l2_async_register_subdev_sensor pf, False, imx294_power_off st)
            else Some (0, True, st)
          })"

text \<open>A platform on which every call outside the driver succeeds.\<close>

definition platform_ok :: platform where
  "platform_ok =
     \<lparr> devm_kzalloc_ok = True, of_match_device_ok = True, devm_clk_get_err = 0,
       clk_get_rate = 24000000, devm_regulator_bulk_get = 0, regulator_bulk_enable = 0,
       clk_prepare_enable = 0, v4l2_ctrl_handler_init = 0, ctrl_hdlr_error = 0,
       v4l2_fwnode_device_parse = 0, v4l2_ctrl_new_fwnode_properties = 0,
       media_entity_pads_init = 0, v4l2_async_register_subdev_sensor = 0 \<rparr>"

section \<open>The specification's formulas\<close>

text \<open>
  Section 4.2 of the specification, read over the integers: the quotient, clamped to
  the 32-bit unsigned range.
\<close>

definition exposureFromShutter_spec :: "int \<Rightarrow> int \<Rightarrow> int \<Rightarrow> int \<Rightarrow> int \<Rightarrow> int" where
  "exposureFromShutter_spec hPeriod vPeriod shutterOffsetReg svr integrationOffset =
     clamp_int (((vPeriod * (svr + 1) - shutterOffsetReg) * hPeriod + integrationOffset) div hPeriod)
       0 4294967295"

text \<open>
  Section 4.2, \<open>exposureBounds\<close>, read over the integers:
  \<open>maxShutterOffset = min(65535, vPeriod*(svr+1) - 4)\<close>, the minimum is the exposure at
  \<open>maxShutterOffset\<close> and the maximum the exposure at \<open>minShutterOffset\<close>.
\<close>

definition exposureBounds_spec :: "int \<Rightarrow> int \<Rightarrow> int \<Rightarrow> int \<Rightarrow> int \<Rightarrow> int \<times> int" where
  "exposureBounds_spec hPeriod vPeriod minShutterOffset svr integrationOffset =
     (let maxShutterOffset = min 65535 (vPeriod * (svr + 1) - 4)
      in (exposureFromShutter_spec hPeriod vPeriod maxShutterOffset svr integrationOffset,
          exposureFromShutter_spec hPeriod vPeriod minShutterOffset svr integrationOffset))"

text \<open>Section 4.3: \<open>pixelRate = mode.width * baseClockHz / mode.minHPeriod\<close>.\<close>

definition pixelRate_spec :: "imx294_mode \<Rightarrow> int" where
  "pixelRate_spec m = (uint (width m) * 72000000) div uint (min_HMAX m)"

section \<open>A device after setup\<close>

text \<open>
  The device structure as a successful \<open>imx294_probe\<close> leaves it on the first catalog
  mode, with a bus that never fails: in standby, and the same while it is held in use.
\<close>

definition attached_standby :: imx294 where
  "attached_standby =
     \<lparr> fmt_code = MEDIA_BUS_FMT_SGBRG12_1X12,
       pixel_rate = \<lparr> minimum = 531850267, maximum = 531850267, step = 1,
                      default_value = 531850267, val = 531850267 \<rparr>,
       exposure = \<lparr> minimum = 4, maximum = 2495, step = 1, default_value = 4, val = 1000 \<rparr>,
       vblank = \<lparr> minimum = 38, maximum = 2094966, step = 1, default_value = 2816,
                  val = 2816 \<rparr>,
       hblank = \<lparr> minimum = 0, maximum = 65535, step = 1, default_value = 4720, val = 4720 \<rparr>,
       analogue_gain = \<lparr> minimum = 0, maximum = 1957, step = 1, default_value = 0, val = 0 \<rparr>,
       mode = mode_01, HMAX = 1200, VMAX = 2500, streaming = False,
       common_regs_written = False, rpm = RPM_NOT_IN_USE, i2c_sent = [],
       i2c_fails = (\<lambda>n. False), i2c_answer = (\<lambda>reg len. Some [0]) \<rparr>"

definition attached_in_use :: imx294 where
  "attached_in_use = attached_standby\<lparr> rpm := RPM_IN_USE \<rparr>"

text \<open>The same device in standby with an exposure of 2000 lines set.\<close>

definition attached_long_exposure :: imx294 where
  "attached_long_exposure =
     attached_standby\<lparr> exposure := (exposure attached_standby)\<lparr> val := 2000 \<rparr> \<rparr>"

section \<open>Word arithmetic without wrap-around\<close>

lemma unat_ucast_small:
  fixes w :: "'a::len word"
  assumes "unat w < 2 ^ LENGTH('b::len)"
  shows "unat (ucast w :: 'b word) = unat w"
  using assms by (simp add: unsigned_ucast_eq take_bit_nat_eq_self)

lemma unat_ucast_up32: "unat (ucast (w :: u32) :: u64) = unat w"
proof -
  have "unat w < 2 ^ 32" using unsigned_less [of w, where ?'a = nat] by simp
  then have "unat w < 2 ^ LENGTH(64)" by simp
  then show ?thesis by (rule unat_ucast_small)
qed

lemma do_div_Some:
  assumes "0 < unat base" "unat base < 2 ^ 32"
  shows "do_div n base = Some (n div base)"
proof -
  have a: "unat (ucast base :: u32) = unat base"
    using assms by (simp add: unat_ucast_small)
  have "unat (ucast (ucast base :: u32) :: u64) = unat (ucast base :: u32)"
    by (rule unat_ucast_up32)
  then have "unat (ucast (ucast base :: u32) :: u64) = unat base"
    using a by simp
  then have b: "(ucast (ucast base :: u32) :: u64) = base"
    by (simp add: word_unat_eq_iff)
  have "(ucast base :: u32) \<noteq> 0"
    using a assms by (auto simp: unat_eq_0 [symmetric] simp del: unat_eq_0)
  then show ?thesis
    using b by (simp add: do_div_def Let_def)
qed

lemma do_div_None_iff: "(do_div n base = None) = ((ucast base :: u32) = 0)"
  by (simp add: do_div_def Let_def)

lemma clamp_t_u32_full: "clamp_t_u32 v 0 0xFFFFFFFF = ucast v"
proof -
  have "(ucast v :: u32) \<le> 0xFFFFFFFF"
    using unsigned_less [of "ucast v :: u32", where ?'a = nat] by (simp add: word_le_nat_alt)
  then show ?thesis by (simp add: clamp_t_u32_def max_def min_def)
qed

lemma uint_ucast_small:
  fixes w :: "'a::len word"
  assumes "uint w < 2 ^ LENGTH('b::len)"
  shows "uint (ucast w :: 'b word) = uint w"
  using assms by (simp add: unsigned_ucast_eq take_bit_int_eq_self)

lemma uint_word_of_int_small:
  assumes "0 \<le> k" "k < 2 ^ 64"
  shows "uint (word_of_int k :: u64) = k"
proof -
  have "uint (word_of_int k :: u64) = k mod 2 ^ LENGTH(64)" by (rule uint_word_of_int)
  then show ?thesis using assms by simp
qed

lemma quotient_bounds:
  fixes D h d q :: int
  assumes h: "0 < h" "h < 2 ^ 32" and D: "0 \<le> D" and d: "0 \<le> d"
    and q: "(D * h + d) div h < 2 ^ 32"
  shows "D < 2 ^ 32" and "D * h + d < 2 ^ 64" and "0 \<le> (D * h + d) div h"
proof -
  let ?n = "D * h + d"
  have "D = (D * h) div h" using h by simp
  also have "\<dots> \<le> ?n div h" using d h by (intro zdiv_mono1) simp_all
  finally have Dq: "D \<le> ?n div h" .
  then show "D < 2 ^ 32" using q by simp
  show "0 \<le> ?n div h" using Dq D by simp
  have "?n = (?n div h) * h + ?n mod h" by (rule div_mult_mod_eq [symmetric])
  moreover have "?n mod h < h" using h by simp
  ultimately have "?n < (?n div h) * h + h" by linarith
  also have "\<dots> = (?n div h + 1) * h" by (simp add: algebra_simps)
  also have "\<dots> \<le> 2 ^ 32 * 2 ^ 32"
    using q h \<open>0 \<le> ?n div h\<close> by (intro mult_mono) simp_all
  finally show "?n < 2 ^ 64" by simp
qed

lemma div_mult_sub_less:
  fixes a h d :: nat
  assumes "0 < a" "d < h"
  shows "(a * h - d) div h = (if d = 0 then a else a - 1)"
proof (cases "d = 0")
  case True
  then show ?thesis using assms by simp
next
  case False
  obtain b where b: "a = Suc b" using assms(1) by (cases a) auto
  have "a * h - d = b * h + (h - d)" using assms b by (simp add: algebra_simps)
  moreover have "h - d < h" using False assms by simp
  ultimately have "(a * h - d) div h = b" by simp
  then show ?thesis using False b by simp
qed

section \<open>The timing calculator on inputs that do not wrap\<close>

lemma calculate_v4l2_cid_exposure_unat:
  fixes hmax vmax shr svr offset :: u64
  assumes h: "0 < unat hmax" "unat hmax < 2 ^ 32"
    and svr: "unat svr + 1 < 2 ^ 64"
    and V: "unat vmax * (unat svr + 1) < 2 ^ 64"
    and s: "unat shr \<le> unat vmax * (unat svr + 1)"
    and n: "(unat vmax * (unat svr + 1) - unat shr) * unat hmax + unat offset < 2 ^ 64"
    and q: "((unat vmax * (unat svr + 1) - unat shr) * unat hmax + unat offset) div unat hmax
              < 2 ^ 32"
  shows "\<exists>e. calculate_v4l2_cid_exposure hmax vmax shr svr offset = Some e
           \<and> unat e = ((unat vmax * (unat svr + 1) - unat shr) * unat hmax + unat offset)
                         div unat hmax"
proof -
  let ?V = "unat vmax * (unat svr + 1)"
  have u1: "unat (svr + 1) = unat svr + 1"
    using svr by (simp add: unat_word_ariths)
  have u2: "unat (vmax * (svr + 1)) = ?V"
    using V u1 by (simp add: unat_word_ariths)
  have u3: "unat (vmax * (svr + 1) - shr) = ?V - unat shr"
    using s u2 by (simp add: unat_sub word_le_nat_alt)
  have "(?V - unat shr) * unat hmax < 2 ^ 64" using n by simp
  then have u4: "unat ((vmax * (svr + 1) - shr) * hmax) = (?V - unat shr) * unat hmax"
    using u3 by (simp add: unat_word_ariths)
  let ?num = "(vmax * (svr + 1) - shr) * hmax + offset"
  have u5: "unat ?num = (?V - unat shr) * unat hmax + unat offset"
    using n u4 by (simp add: unat_word_ariths)
  have u6: "unat (?num div hmax) = ((?V - unat shr) * unat hmax + unat offset) div unat hmax"
    using u5 by (simp add: unat_div)
  have "unat (?num div hmax) < 2 ^ LENGTH(32)" using q u6 by simp
  then have "unat (ucast (?num div hmax) :: u32) = unat (?num div hmax)"
    by (rule unat_ucast_small)
  then have u7: "unat (ucast (ucast (?num div hmax) :: u32) :: u64) = unat (?num div hmax)"
    by (simp add: unat_ucast_up32)
  show ?thesis
    using u6 u7
    by (simp add: calculate_v4l2_cid_exposure_def do_div_Some [OF h] clamp_t_u32_full)
qed

lemma calculate_v4l2_cid_exposure_uint:
  fixes hmax vmax shr svr offset :: u64
  assumes h: "0 < uint hmax" "uint hmax < 2 ^ 32"
    and s: "uint shr \<le> uint vmax * (uint svr + 1)"
    and q: "((uint vmax * (uint svr + 1) - uint shr) * uint hmax + uint offset) div uint hmax
              < 2 ^ 32"
  shows "\<exists>e. calculate_v4l2_cid_exposure hmax vmax shr svr offset = Some e
           \<and> uint e = ((uint vmax * (uint svr + 1) - uint shr) * uint hmax + uint offset)
                         div uint hmax
           \<and> uint e = exposureFromShutter_spec (uint hmax) (uint vmax) (uint shr) (uint svr)
                         (uint offset)"
proof -
  let ?D = "uint vmax * (uint svr + 1) - uint shr"
  let ?n = "?D * uint hmax + uint offset"
  have D0: "0 \<le> ?D" using s by simp
  note b = quotient_bounds [OF h D0 uint_ge_0 q]
  have D64: "?D < 2 ^ 64"
  proof -
    have "(2::int) ^ 32 \<le> 2 ^ 64" by simp
    with b(1) show ?thesis by (rule less_le_trans)
  qed
  have w1: "vmax * (svr + 1) - shr = word_of_int ?D" by simp
  have w2: "(vmax * (svr + 1) - shr) * hmax + offset = word_of_int ?n" by simp
  have un: "uint ((vmax * (svr + 1) - shr) * hmax + offset) = ?n"
    unfolding w2 using b(2) D0 h by (intro uint_word_of_int_small) simp_all
  have uq: "uint (((vmax * (svr + 1) - shr) * hmax + offset) div hmax) = ?n div uint hmax"
    using un by (simp add: uint_div)
  let ?w = "((vmax * (svr + 1) - shr) * hmax + offset) div hmax"
  have "uint ?w < 2 ^ LENGTH(32)" using uq q by simp
  then have "uint (ucast ?w :: u32) = uint ?w" by (rule uint_ucast_small)
  moreover have "uint (ucast ?w :: u32) < 2 ^ LENGTH(64)"
    using calculation uq q by simp
  ultimately have ue: "uint (ucast (ucast ?w :: u32) :: u64) = ?n div uint hmax"
    using uq by (simp add: uint_ucast_small)
  have h': "uint hmax < 4294967296" using h(2) by simp
  have i: "int (unat hmax) = uint hmax" by simp
  have hn0: "0 < unat hmax" "unat hmax < 4294967296" using h(1) h' i by linarith+
  have hn: "0 < unat hmax" "unat hmax < 2 ^ 32" using hn0 by simp_all
  have c: "calculate_v4l2_cid_exposure hmax vmax shr svr offset
      = Some (ucast (ucast ?w :: u32))"
    by (simp add: calculate_v4l2_cid_exposure_def do_div_Some [OF hn] clamp_t_u32_full)
  have "exposureFromShutter_spec (uint hmax) (uint vmax) (uint shr) (uint svr) (uint offset)
      = ?n div uint hmax"
    using b(3) q by (simp add: exposureFromShutter_spec_def clamp_int_def)
  then show ?thesis using c ue by simp
qed

lemma calculate_v4l2_cid_exposure_stored_periods:
  fixes H :: u16 and V :: u32 and shr offset :: u64
  assumes H: "H \<noteq> 0" and s: "uint shr \<le> uint V" and o: "uint offset < uint H"
  shows "\<exists>e. calculate_v4l2_cid_exposure (ucast H) (ucast V) shr 0 offset = Some e
           \<and> uint e = uint V - uint shr
           \<and> uint e = exposureFromShutter_spec (uint H) (uint V) (uint shr) 0 (uint offset)"
proof -
  have H16: "uint H < 2 ^ 16" using unsigned_less [of H, where ?'a = int] by simp
  have V32: "uint V < 2 ^ 32" using unsigned_less [of V, where ?'a = int] by simp
  have "uint H < 2 ^ LENGTH(64)" using H16 by simp
  then have uH: "uint (ucast H :: u64) = uint H" by (rule uint_ucast_small)
  have "uint V < 2 ^ LENGTH(64)" using V32 by simp
  then have uV: "uint (ucast V :: u64) = uint V" by (rule uint_ucast_small)
  have Hp: "0 < uint H" using H uint_ge_0 [of H] by (simp add: uint_0_iff order_less_le)
  have q: "((uint V - uint shr) * uint H + uint offset) div uint H = uint V - uint shr"
    using Hp o by simp
  have V32': "uint V < 4294967296" using V32 by simp
  have d: "uint V - uint shr < 4294967296" using V32' uint_ge_0 [of shr] by linarith
  have h: "0 < uint (ucast H :: u64)" "uint (ucast H :: u64) < 2 ^ 32"
    using Hp H16 uH by simp_all
  have s': "uint shr \<le> uint (ucast V :: u64) * (uint (0 :: u64) + 1)" using s uV by simp
  have q': "((uint (ucast V :: u64) * (uint (0 :: u64) + 1) - uint shr) * uint (ucast H :: u64)
              + uint offset) div uint (ucast H :: u64) < 2 ^ 32"
    using q d uH uV by simp
  obtain e where e: "calculate_v4l2_cid_exposure (ucast H) (ucast V) shr 0 offset = Some e"
      "uint e = ((uint (ucast V :: u64) * (uint (0 :: u64) + 1) - uint shr) * uint (ucast H :: u64)
              + uint offset) div uint (ucast H :: u64)"
      "uint e = exposureFromShutter_spec (uint (ucast H :: u64)) (uint (ucast V :: u64)) (uint shr)
                  (uint (0 :: u64)) (uint offset)"
    using calculate_v4l2_cid_exposure_uint [OF h s' q'] by blast
  show ?thesis using e q uH uV by simp
qed

lemma uint_max_shr:
  fixes vmax svr :: u64
  assumes V: "4 \<le> uint vmax * (uint svr + 1)" "uint vmax * (uint svr + 1) < 2 ^ 64"
  shows "uint (min_t_u64 ((svr + 1) * vmax - 4) 0xFFFF) = min 65535 (uint vmax * (uint svr + 1) - 4)"
proof -
  let ?V = "uint vmax * (uint svr + 1)"
  have w: "(svr + 1) * vmax - 4 = (word_of_int (?V - 4) :: u64)" by (simp add: mult.commute)
  have u: "uint ((svr + 1) * vmax - 4) = ?V - 4"
    unfolding w using V by (intro uint_word_of_int_small) simp_all
  show ?thesis
    using u by (simp add: min_t_u64_def min_def word_le_def)
qed

lemma calculate_min_max_v4l2_cid_exposure_uint:
  fixes hmax vmax min_shr svr offset :: u64
  assumes h: "0 < uint hmax" "uint hmax < 2 ^ 32"
    and V: "4 \<le> uint vmax * (uint svr + 1)"
    and s: "uint min_shr \<le> uint vmax * (uint svr + 1)"
    and q1: "((uint vmax * (uint svr + 1) - min 65535 (uint vmax * (uint svr + 1) - 4)) * uint hmax
               + uint offset) div uint hmax < 2 ^ 32"
    and q2: "((uint vmax * (uint svr + 1) - uint min_shr) * uint hmax + uint offset) div uint hmax
               < 2 ^ 32"
  shows "\<exists>mn mx. calculate_min_max_v4l2_cid_exposure hmax vmax min_shr svr offset = Some (mn, mx)
           \<and> uint mn = ((uint vmax * (uint svr + 1) - min 65535 (uint vmax * (uint svr + 1) - 4))
                          * uint hmax + uint offset) div uint hmax
           \<and> uint mx = ((uint vmax * (uint svr + 1) - uint min_shr) * uint hmax + uint offset)
                          div uint hmax"
proof -
  let ?V = "uint vmax * (uint svr + 1)"
  let ?M = "min 65535 (?V - 4)"
  let ?ms = "min_t_u64 ((svr + 1) * vmax - 4) 0xFFFF"
  have D0: "0 \<le> ?V - ?M" by simp
  have "?V - ?M < 2 ^ 32" using quotient_bounds(1) [OF h D0 uint_ge_0 q1] .
  then have "?V < 2 ^ 32 + 65535" by simp
  then have V64: "?V < 2 ^ 64" by simp
  have ums: "uint ?ms = ?M" using V V64 by (rule uint_max_shr)
  have s1: "uint ?ms \<le> ?V" unfolding ums by simp
  have q1': "((?V - uint ?ms) * uint hmax + uint offset) div uint hmax < 2 ^ 32"
    unfolding ums using q1 .
  obtain mn where mn: "calculate_v4l2_cid_exposure hmax vmax ?ms svr offset = Some mn"
      "uint mn = ((?V - uint ?ms) * uint hmax + uint offset) div uint hmax"
    using calculate_v4l2_cid_exposure_uint [OF h s1 q1'] by blast
  obtain mx where mx: "calculate_v4l2_cid_exposure hmax vmax min_shr svr offset = Some mx"
      "uint mx = ((?V - uint min_shr) * uint hmax + uint offset) div uint hmax"
    using calculate_v4l2_cid_exposure_uint [OF h s q2] by blast
  have "calculate_min_max_v4l2_cid_exposure hmax vmax min_shr svr offset = Some (mn, mx)"
    using mn(1) mx(1) by (simp add: calculate_min_max_v4l2_cid_exposure_def Let_def)
  then show ?thesis using mn(2) mx(2) ums by simp
qed

section \<open>Claims about the timing calculator\<close>

text \<open>
  C1, as stated for all unsigned inputs, fails. The source computes in 64-bit unsigned
  arithmetic, divides by the low 32 bits of \<open>hmax\<close> and then applies
  \<open>clamp_t(uint32_t, \<dots>)\<close>, whose cast keeps the low 32 bits of the quotient. For
  \<open>hmax = 1\<close>, \<open>vmax = 4294967295\<close>, \<open>shr = 5\<close>, \<open>svr = 0\<close>, \<open>offset = 256\<close> the quotient
  is \<open>2^32 + 250\<close>: the specification's formula clamps it to \<open>4294967295\<close>, the function
  returns \<open>250\<close>. For \<open>hmax = 3\<close>, \<open>vmax = 0\<close>, \<open>shr = 1\<close> the subtraction wraps and the
  function returns \<open>1431655764\<close> where the formula gives 0. For \<open>hmax = 2^32\<close> the divisor
  is cut to 0 and there is no result at all.
\<close>

theorem calculate_v4l2_cid_exposure_truncates:
  "calculate_v4l2_cid_exposure 1 4294967295 5 0 256 = Some 250
   \<and> exposureFromShutter_spec 1 4294967295 5 0 256 = 4294967295
   \<and> calculate_v4l2_cid_exposure 3 0 1 0 0 = Some 1431655764
   \<and> exposureFromShutter_spec 3 0 1 0 0 = 0
   \<and> calculate_v4l2_cid_exposure 4294967296 2500 5 0 256 = None
   \<and> exposureFromShutter_spec 4294967296 2500 5 0 256 = 2495"
  by (simp add: calculate_v4l2_cid_exposure_def do_div_def clamp_t_u32_full
      exposureFromShutter_spec_def clamp_int_def)

text \<open>
  C1, amended. For all unsigned 64-bit inputs with a horizontal period \<open>0 < hmax < 2^32\<close>,
  a shutter offset \<open>shr \<le> vmax * (svr + 1)\<close> and a quotient below \<open>2^32\<close>, the function
  returns \<open>floor(((vmax * (svr + 1) - shr) * hmax + offset) / hmax)\<close>, which is also the
  value of the specification's clamped formula. These conditions hold for every value the
  driver passes: a non-zero 16-bit stored horizontal period, a 32-bit stored vertical
  period, \<open>svr = 0\<close>, a shutter offset of at most the vertical period and an offset below
  the horizontal period (lemma \<open>calculate_v4l2_cid_exposure_stored_periods\<close>).
\<close>

theorem calculate_v4l2_cid_exposure_floor:
  fixes hmax vmax shr svr offset :: u64
  assumes "0 < uint hmax" and "uint hmax < 2 ^ 32"
    and "uint shr \<le> uint vmax * (uint svr + 1)"
    and "((uint vmax * (uint svr + 1) - uint shr) * uint hmax + uint offset) div uint hmax
           < 2 ^ 32"
  shows "\<exists>e. calculate_v4l2_cid_exposure hmax vmax shr svr offset = Some e
           \<and> uint e = ((uint vmax * (uint svr + 1) - uint shr) * uint hmax + uint offset)
                         div uint hmax
           \<and> uint e = exposureFromShutter_spec (uint hmax) (uint vmax) (uint shr) (uint svr)
                         (uint offset)"
  using assms by (rule calculate_v4l2_cid_exposure_uint)

theorem calculate_v4l2_cid_exposure_floor_witness:
  "0 < uint (1200 :: u64) \<and> uint (1200 :: u64) < 2 ^ 32
   \<and> uint (5 :: u64) \<le> uint (2500 :: u64) * (uint (0 :: u64) + 1)
   \<and> ((uint (2500 :: u64) * (uint (0 :: u64) + 1) - uint (5 :: u64)) * uint (1200 :: u64)
         + uint (256 :: u64)) div uint (1200 :: u64) < 2 ^ 32
   \<and> calculate_v4l2_cid_exposure 1200 2500 5 0 256 = Some 2495
   \<and> exposureFromShutter_spec 1200 2500 5 0 256 = 2495"
  using calculate_v4l2_cid_exposure_floor [of 1200 5 2500 0 256]
  by (auto simp add: word_uint_eq_iff)

text \<open>
  C2, as stated for all unsigned inputs, fails, for the same reasons. For \<open>hmax = 1\<close>,
  \<open>vmax = 4294967295\<close>, \<open>min_shr = 5\<close>, \<open>svr = 0\<close>, \<open>offset = 256\<close> the function returns
  the bounds \<open>(4294902016, 250)\<close>, the maximum cut to its low 32 bits, where the
  specification's formulas give \<open>(4294902016, 4294967295)\<close>. For \<open>hmax = 2^32\<close> there is no
  result. For \<open>vmax = 0\<close> the subtraction \<open>vmax * (svr + 1) - 4\<close> wraps, and for
  \<open>min_shr = 5 > vmax = 4\<close> the subtraction inside the exposure does.
\<close>

theorem calculate_min_max_v4l2_cid_exposure_wraps:
  "calculate_min_max_v4l2_cid_exposure 1 4294967295 5 0 256 = Some (4294902016, 250)
   \<and> exposureBounds_spec 1 4294967295 5 0 256 = (4294902016, 4294967295)
   \<and> calculate_min_max_v4l2_cid_exposure 4294967296 2500 5 0 256 = None
   \<and> exposureBounds_spec 4294967296 2500 5 0 256 = (4, 2495)
   \<and> calculate_min_max_v4l2_cid_exposure 1 0 0 0 0 = Some (4294901761, 0)
   \<and> exposureBounds_spec 1 0 0 0 0 = (4, 0)
   \<and> calculate_min_max_v4l2_cid_exposure 3 4 5 0 0 = Some (4, 1431655764)
   \<and> exposureBounds_spec 3 4 5 0 0 = (4, 0)"
  by (simp add: calculate_min_max_v4l2_cid_exposure_def calculate_v4l2_cid_exposure_def
      do_div_def clamp_t_u32_full min_t_u64_def exposureBounds_spec_def
      exposureFromShutter_spec_def clamp_int_def)

text \<open>
  C2, amended. For all unsigned 64-bit inputs with \<open>0 < hmax < 2^32\<close>, a frame length
  \<open>V = vmax * (svr + 1)\<close> of at least 4, \<open>min_shr \<le> V\<close>, and both quotients below \<open>2^32\<close>,
  the function returns a pair: the minimum is the exposure
  \<open>floor(((V - M) * hmax + offset) / hmax)\<close> at \<open>M = min(65535, V - 4)\<close>, the maximum is the
  exposure at \<open>min_shr\<close>, and the pair is the one of the specification's formulas. For
  \<open>hmax = 1200\<close>, \<open>vmax = 2500\<close>, \<open>svr = 0\<close>, \<open>offset = 256\<close>, \<open>min_shr = 5\<close> the bounds are
  4 and 2495.
\<close>

theorem calculate_min_max_v4l2_cid_exposure_bounds:
  fixes hmax vmax min_shr svr offset :: u64
  assumes h: "0 < uint hmax" "uint hmax < 2 ^ 32"
    and V: "4 \<le> uint vmax * (uint svr + 1)"
    and s: "uint min_shr \<le> uint vmax * (uint svr + 1)"
    and q1: "((uint vmax * (uint svr + 1) - min 65535 (uint vmax * (uint svr + 1) - 4)) * uint hmax
               + uint offset) div uint hmax < 2 ^ 32"
    and q2: "((uint vmax * (uint svr + 1) - uint min_shr) * uint hmax + uint offset) div uint hmax
               < 2 ^ 32"
  shows "(\<exists>mn mx. calculate_min_max_v4l2_cid_exposure hmax vmax min_shr svr offset = Some (mn, mx)
            \<and> (uint mn, uint mx)
                = exposureBounds_spec (uint hmax) (uint vmax) (uint min_shr) (uint svr) (uint offset)
            \<and> uint mn = ((uint vmax * (uint svr + 1) - min 65535 (uint vmax * (uint svr + 1) - 4))
                           * uint hmax + uint offset) div uint hmax
            \<and> uint mx = ((uint vmax * (uint svr + 1) - uint min_shr) * uint hmax + uint offset)
                           div uint hmax)
         \<and> calculate_min_max_v4l2_cid_exposure 1200 2500 5 0 256 = Some (4, 2495)"
proof -
  let ?V = "uint vmax * (uint svr + 1)"
  let ?M = "min 65535 (?V - 4)"
  obtain mn mx where m: "calculate_min_max_v4l2_cid_exposure hmax vmax min_shr svr offset
        = Some (mn, mx)"
      "uint mn = ((?V - ?M) * uint hmax + uint offset) div uint hmax"
      "uint mx = ((?V - uint min_shr) * uint hmax + uint offset) div uint hmax"
    using calculate_min_max_v4l2_cid_exposure_uint [OF h V s q1 q2] by blast
  have D1: "0 \<le> ?V - ?M" by simp
  have D2: "0 \<le> ?V - uint min_shr" using s by simp
  have e1: "exposureFromShutter_spec (uint hmax) (uint vmax) ?M (uint svr) (uint offset) = uint mn"
    using quotient_bounds(3) [OF h D1 uint_ge_0 q1] q1 m(2)
    by (simp add: exposureFromShutter_spec_def clamp_int_def)
  have e2: "exposureFromShutter_spec (uint hmax) (uint vmax) (uint min_shr) (uint svr) (uint offset)
      = uint mx"
    using quotient_bounds(3) [OF h D2 uint_ge_0 q2] q2 m(3)
    by (simp add: exposureFromShutter_spec_def clamp_int_def)
  have "(uint mn, uint mx)
      = exposureBounds_spec (uint hmax) (uint vmax) (uint min_shr) (uint svr) (uint offset)"
    using e1 e2 by (simp add: exposureBounds_spec_def Let_def)
  moreover have "calculate_min_max_v4l2_cid_exposure 1200 2500 5 0 256 = Some (4, 2495)"
    by (simp add: calculate_min_max_v4l2_cid_exposure_def calculate_v4l2_cid_exposure_def
        do_div_def clamp_t_u32_def min_t_u64_def)
  ultimately show ?thesis using m by blast
qed

theorem calculate_min_max_v4l2_cid_exposure_bounds_witness:
  "0 < uint (1200 :: u64) \<and> uint (1200 :: u64) < 2 ^ 32
   \<and> 4 \<le> uint (2500 :: u64) * (uint (0 :: u64) + 1)
   \<and> uint (5 :: u64) \<le> uint (2500 :: u64) * (uint (0 :: u64) + 1)
   \<and> ((uint (2500 :: u64) * (uint (0 :: u64) + 1)
          - min 65535 (uint (2500 :: u64) * (uint (0 :: u64) + 1) - 4)) * uint (1200 :: u64)
         + uint (256 :: u64)) div uint (1200 :: u64) < 2 ^ 32
   \<and> ((uint (2500 :: u64) * (uint (0 :: u64) + 1) - uint (5 :: u64)) * uint (1200 :: u64)
         + uint (256 :: u64)) div uint (1200 :: u64) < 2 ^ 32
   \<and> calculate_min_max_v4l2_cid_exposure 1200 2500 5 0 256 = Some (4, 2495)
   \<and> exposureBounds_spec 1200 2500 5 0 256 = (4, 2495)"
  using calculate_min_max_v4l2_cid_exposure_bounds [of 1200 2500 0 5 256]
  by (auto simp add: word_uint_eq_iff)

text \<open>
  C3. Take a horizontal period \<open>hmax > 0\<close>, a frame length \<open>vmax * (svr + 1)\<close> that fits
  32 bits, a shutter offset \<open>shr\<close> of at most that frame length minus 4 (the upper end
  of the legal shutter range), and an integration offset below \<open>hmax\<close>. Then
  \<open>calculate_v4l2_cid_exposure\<close> followed by \<open>calculate_shr\<close> returns \<open>shr\<close> when the
  integration offset is zero and \<open>shr + 1\<close> otherwise: the round trip is off by at most
  one, the truncation of the second division.
\<close>

theorem exposure_shr_round_trip:
  fixes hmax svr offset :: u32 and vmax shr :: u64
  assumes h: "0 < unat hmax"
    and V: "unat vmax * (unat svr + 1) < 2 ^ 32"
    and s: "unat shr + 4 \<le> unat vmax * (unat svr + 1)"
    and o: "unat offset < unat hmax"
  shows "\<exists>e shr'. calculate_v4l2_cid_exposure (ucast hmax) vmax shr (ucast svr) (ucast offset) = Some e
           \<and> calculate_shr (ucast e) hmax vmax svr offset = Some shr'
           \<and> unat shr' = unat shr + (if offset = 0 then 0 else 1)"
proof -
  let ?V = "unat vmax * (unat svr + 1)"
  let ?h = "ucast hmax :: u64" and ?svr = "ucast svr :: u64" and ?o = "ucast offset :: u64"
  have hb: "unat hmax < 2 ^ 32" using unsigned_less [of hmax, where ?'a = nat] by simp
  have uh: "unat ?h = unat hmax" and us: "unat ?svr = unat svr" and uo: "unat ?o = unat offset"
    by (rule unat_ucast_up32)+
  have vpos: "0 < unat vmax" using s by (cases "unat vmax = 0") simp_all
  have svrb: "unat svr + 1 < 2 ^ 32"
  proof -
    have "1 * (unat svr + 1) \<le> unat vmax * (unat svr + 1)"
      using vpos by (intro mult_right_mono) simp_all
    then show ?thesis using V by simp
  qed
  have dlt: "?V - unat shr < 2 ^ 32" using V by simp
  have prod: "(?V - unat shr) * unat hmax < 2 ^ 32 * 2 ^ 32"
    using dlt hb by (rule mult_strict_mono) simp_all
  have q: "((?V - unat shr) * unat hmax + unat offset) div unat hmax = ?V - unat shr"
    using o by simp
  have n: "(?V - unat shr) * unat hmax + unat offset < 2 ^ 64"
  proof -
    have "(?V - unat shr) * unat hmax + unat offset < (?V - unat shr) * unat hmax + unat hmax"
      using o by simp
    also have "\<dots> = (?V - unat shr + 1) * unat hmax" by (simp add: algebra_simps)
    also have "\<dots> \<le> 2 ^ 32 * 2 ^ 32"
      using dlt hb by (intro mult_mono) simp_all
    finally show ?thesis by simp
  qed
  have "\<exists>e. calculate_v4l2_cid_exposure ?h vmax shr ?svr ?o = Some e
          \<and> unat e = ((unat vmax * (unat ?svr + 1) - unat shr) * unat ?h + unat ?o) div unat ?h"
  proof (rule calculate_v4l2_cid_exposure_unat)
    show "0 < unat ?h" using h uh by simp
    show "unat ?h < 2 ^ 32" using hb uh by simp
    show "unat ?svr + 1 < 2 ^ 64" using svrb us by simp
    show "unat vmax * (unat ?svr + 1) < 2 ^ 64" using V us by simp
    show "unat shr \<le> unat vmax * (unat ?svr + 1)" using s us by simp
    show "(unat vmax * (unat ?svr + 1) - unat shr) * unat ?h + unat ?o < 2 ^ 64"
      using n uh us uo by simp
    show "((unat vmax * (unat ?svr + 1) - unat shr) * unat ?h + unat ?o) div unat ?h < 2 ^ 32"
      using q dlt uh us uo by simp
  qed
  then obtain e where e: "calculate_v4l2_cid_exposure ?h vmax shr ?svr ?o = Some e"
    and ue: "unat e = ?V - unat shr"
    using q uh us uo by auto
  have "unat e < 2 ^ LENGTH(32)" using ue dlt by simp
  then have e32: "unat (ucast e :: u32) = ?V - unat shr"
    using ue by (simp add: unat_ucast_small)
  let ?e = "ucast (ucast e :: u32) :: u64"
  have ue': "unat ?e = ?V - unat shr" using e32 by (simp add: unat_ucast_up32)
  have epos: "0 < ?V - unat shr" using s by simp
  have ole: "unat offset \<le> (?V - unat shr) * unat hmax"
  proof -
    have "unat offset < 1 * unat hmax" using o by simp
    also have "\<dots> \<le> (?V - unat shr) * unat hmax"
      using epos by (intro mult_right_mono) simp_all
    finally show ?thesis by simp
  qed
  have m1: "unat (?e * ?h) = (?V - unat shr) * unat hmax"
    using prod ue' uh by (simp add: unat_word_ariths)
  have m2: "unat (?e * ?h - ?o) = (?V - unat shr) * unat hmax - unat offset"
    using ole m1 uo by (simp add: unat_sub word_le_nat_alt)
  let ?temp = "(?e * ?h - ?o) div ?h"
  have dd: "do_div (?e * ?h - ?o) ?h = Some ?temp"
    using h hb uh by (intro do_div_Some) simp_all
  let ?d = "if offset = 0 then 0 else 1 :: nat"
  have o0: "(unat offset = 0) = (offset = 0)" by (simp add: unat_eq_0)
  have t: "unat ?temp = ?V - unat shr - ?d"
    using m2 uh div_mult_sub_less [OF epos o] o0 by (simp add: unat_div)
  have s1: "unat (svr + 1) = unat svr + 1"
    using svrb by (simp add: unat_word_ariths)
  have vw: "unat (vmax * ucast (svr + 1)) = ?V"
    using V s1 by (simp add: unat_word_ariths unat_ucast_up32)
  have r: "unat (vmax * ucast (svr + 1) - ?temp) = unat shr + ?d"
  proof -
    have "unat ?temp \<le> ?V" using t by simp
    then have "unat (vmax * ucast (svr + 1) - ?temp) = ?V - unat ?temp"
      using vw by (simp add: unat_sub word_le_nat_alt)
    also have "\<dots> = unat shr + ?d" using t s by auto
    finally show ?thesis .
  qed
  have r32: "unat (ucast (vmax * ucast (svr + 1) - ?temp) :: u32) = unat shr + ?d"
  proof -
    have "unat shr + ?d < 2 ^ 32" using s V by auto
    then have "unat (vmax * ucast (svr + 1) - ?temp) < 2 ^ LENGTH(32)" using r by simp
    then show ?thesis using r by (simp add: unat_ucast_small)
  qed
  have "calculate_shr (ucast e) hmax vmax svr offset
          = Some (ucast (vmax * ucast (svr + 1) - ?temp))"
    using dd by (simp add: calculate_shr_def)
  then show ?thesis using e r32 by auto
qed

theorem exposure_shr_round_trip_witness:
  "0 < unat (1200 :: u32) \<and> unat (2500 :: u64) * (unat (0 :: u32) + 1) < 2 ^ 32
   \<and> unat (2496 :: u64) + 4 \<le> unat (2500 :: u64) * (unat (0 :: u32) + 1)
   \<and> unat (256 :: u32) < unat (1200 :: u32)
   \<and> (\<exists>e shr'. calculate_v4l2_cid_exposure (ucast (1200 :: u32)) 2500 2496 (ucast (0 :: u32))
                    (ucast (256 :: u32)) = Some e
         \<and> calculate_shr (ucast e) 1200 2500 0 256 = Some shr'
         \<and> unat shr' = 2497)"
proof -
  have h: "0 < unat (1200 :: u32)" by simp
  have V: "unat (2500 :: u64) * (unat (0 :: u32) + 1) < 2 ^ 32" by simp
  have s: "unat (2496 :: u64) + 4 \<le> unat (2500 :: u64) * (unat (0 :: u32) + 1)" by simp
  have o: "unat (256 :: u32) < unat (1200 :: u32)" by simp
  show ?thesis
    using h V s o exposure_shr_round_trip [OF h V s o] by simp
qed

section \<open>Claims about the format-code lookup\<close>

lemma length_codes: "length codes = 4"
  by (simp add: codes_def)

lemma codes_scan_4: "codes_scan code 4 = 4"
  by (simp add: codes_scan.simps [of code 4] length_codes)

lemma codes_scan_3: "codes_scan code 3 = (if codes ! 3 = code then 3 else 4)"
  by (simp add: codes_scan.simps [of code 3] length_codes codes_scan_4)

lemma codes_scan_2:
  "codes_scan code 2 = (if codes ! 2 = code then 2 else if codes ! 3 = code then 3 else 4)"
  by (simp add: codes_scan.simps [of code 2] length_codes codes_scan_3)

lemma codes_scan_1:
  "codes_scan code (Suc 0) =
     (if codes ! Suc 0 = code then Suc 0 else if codes ! 2 = code then 2
      else if codes ! 3 = code then 3 else 4)"
  using codes_scan.simps [of code "Suc 0"]
  by (simp add: length_codes codes_scan_2 numeral_2_eq_2 [symmetric])

lemma codes_scan_result:
  "codes_scan code 0 =
     (if codes ! 0 = code then 0 else if codes ! Suc 0 = code then Suc 0
      else if codes ! 2 = code then 2 else if codes ! 3 = code then 3 else 4)"
  using codes_scan.simps [of code 0] by (simp add: length_codes codes_scan_1)

lemma imx294_get_format_code_eq:
  "imx294_get_format_code code =
     (if code \<in> set codes then Inr code else Inl (Array_index_out_of_bounds 4))"
proof -
  have nth: "codes ! 0 = MEDIA_BUS_FMT_SRGGB12_1X12" "codes ! Suc 0 = MEDIA_BUS_FMT_SGRBG12_1X12"
    "codes ! 2 = MEDIA_BUS_FMT_SGBRG12_1X12" "codes ! 3 = MEDIA_BUS_FMT_SBGGR12_1X12"
    by (simp_all add: codes_def numeral_3_eq_3 numeral_2_eq_2)
  have mem: "(code \<in> set codes) =
      (MEDIA_BUS_FMT_SRGGB12_1X12 = code \<or> MEDIA_BUS_FMT_SGRBG12_1X12 = code
       \<or> MEDIA_BUS_FMT_SGBRG12_1X12 = code \<or> MEDIA_BUS_FMT_SBGGR12_1X12 = code)"
    by (auto simp: codes_def)
  show ?thesis
    unfolding imx294_get_format_code_def Let_def codes_scan_result mem
    by (auto simp: nth length_codes)
qed

text \<open>
  C10. The lookup returns the code itself when it is one of the four supported codes. For
  any other code the loop ends with \<open>i = 4\<close> and \<open>codes[4]\<close> is read, one element past
  the end of the array: \<open>0x300F\<close> (a 10-bit Bayer code) is such an input.
\<close>

theorem imx294_get_format_code_out_of_bounds:
  "imx294_get_format_code code =
     (if code \<in> set codes then Inr code else Inl (Array_index_out_of_bounds 4))
   \<and> imx294_get_format_code 0x300F = Inl (Array_index_out_of_bounds 4)"
proof -
  have "(0x300F :: u32) \<notin> set codes"
    by (simp add: codes_def MEDIA_BUS_FMT_SRGGB12_1X12_def MEDIA_BUS_FMT_SGRBG12_1X12_def
        MEDIA_BUS_FMT_SGBRG12_1X12_def MEDIA_BUS_FMT_SBGGR12_1X12_def)
  then show ?thesis
    using imx294_get_format_code_eq [of code] imx294_get_format_code_eq [of "0x300F"]
    by simp
qed

section \<open>The control handler, case by case\<close>

lemma snd_i2c_master_send [simp]:
  "snd (i2c_master_send st buf) = st\<lparr> i2c_sent := i2c_sent st @ [buf] \<rparr>"
  by (simp add: i2c_master_send_def)

lemma pm_standby_iff: "(pm_runtime_get_if_in_use r = 0) = (r = RPM_NOT_IN_USE)"
  by (cases r) (simp_all add: pm_runtime_get_if_in_use_def EINVAL_def)

lemma imx294_set_ctrl_standby:
  assumes "rpm st = RPM_NOT_IN_USE" "cid \<noteq> V4L2_CID_VBLANK"
  shows "imx294_set_ctrl cid v u st = Some (0, st)"
  using assms by (simp add: imx294_set_ctrl_def Let_def pm_standby_iff)

lemma calculate_shr_defined:
  fixes h :: u16
  assumes "h \<noteq> 0"
  shows "\<exists>shr. calculate_shr e (ucast h) vmax svr offs = Some shr"
proof -
  have a: "unat h < 2 ^ 16" using unsigned_less [of h, where ?'a = nat] by simp
  then have "unat h < 2 ^ LENGTH(32)" by simp
  then have b: "unat (ucast h :: u32) = unat h" by (rule unat_ucast_small)
  have c: "unat (ucast (ucast h :: u32) :: u64) = unat h"
    using b by (simp only: unat_ucast_up32)
  have "0 < unat h" using assms by (simp add: unat_gt_0)
  then have p: "0 < unat (ucast (ucast h :: u32) :: u64)" using c by simp
  have "unat h < 2 ^ 32" using a by simp
  then have q: "unat (ucast (ucast h :: u32) :: u64) < 2 ^ 32" using c by simp
  show ?thesis
    by (simp add: calculate_shr_def do_div_Some [OF p q])
qed

lemma imx294_set_ctrl_exposure_in_use:
  assumes on: "rpm st \<noteq> RPM_NOT_IN_USE"
    and sh: "calculate_shr e (ucast (HMAX st)) (ucast (VMAX st)) 0 (integration_offset (mode st))
               = Some shr"
  shows "imx294_set_ctrl V4L2_CID_EXPOSURE e u st =
     Some (if i2c_fails st (length (i2c_sent st)) then - EIO else 0,
           st\<lparr> i2c_sent := i2c_sent st @ [buf_2byte IMX294_REG_SHR (ucast shr)] \<rparr>)"
  using on sh
  by (simp add: imx294_set_ctrl_def Let_def pm_standby_iff imx294_write_reg_2byte_def
      i2c_master_send_def)

lemma imx294_set_ctrl_gain_in_use:
  assumes on: "rpm st \<noteq> RPM_NOT_IN_USE"
  shows "imx294_set_ctrl V4L2_CID_ANALOGUE_GAIN g u st =
     Some (if i2c_fails st (length (i2c_sent st)) then - EIO else 0,
           st\<lparr> i2c_sent := i2c_sent st @ [buf_2byte IMX294_REG_ANALOG_GAIN (ucast g)] \<rparr>)"
  using on
  by (simp add: imx294_set_ctrl_def Let_def pm_standby_iff imx294_write_reg_2byte_def
      i2c_master_send_def)

lemma v4l2_ctrl_s_ctrl_standby:
  assumes "rpm st = RPM_NOT_IN_USE" "cid \<noteq> V4L2_CID_VBLANK"
  shows "v4l2_ctrl_s_ctrl get upd cid v u st =
     Some (0, upd (\<lambda>c. c\<lparr> val := clamp_int v (minimum (get st)) (maximum (get st)) \<rparr>) st)"
  using assms by (simp add: v4l2_ctrl_s_ctrl_def Let_def imx294_set_ctrl_standby)

lemma imx294_set_ctrl_hblank_in_use:
  assumes on: "rpm st \<noteq> RPM_NOT_IN_USE"
    and pr: "do_div (ucast (width (mode st)) * 72000000) (min_HMAX (mode st)) = Some pr"
    and hm: "do_div (ucast (width (mode st) + v) * 72000000) pr = Some hm"
  shows "\<exists>ret. imx294_set_ctrl V4L2_CID_HBLANK v u st =
     Some (ret, st\<lparr> HMAX := ucast hm,
       i2c_sent := i2c_sent st @ [buf_2byte IMX294_REG_HMAX (ucast hm),
         buf_2byte IMX294_REG_HCOUNT1 (ucast hm), buf_2byte IMX294_REG_HCOUNT2 (ucast hm)] \<rparr>)"
  using on pr hm
  by (simp add: imx294_set_ctrl_def Let_def pm_standby_iff imx294_write_reg_2byte_def
      split_beta prod_eq_iff)

lemma ucast_u16_u64_u32_eq_0: "((ucast (ucast (h :: u16) :: u64) :: u32) = 0) = (h = 0)"
proof -
  have a: "unat h < 2 ^ 16" using unsigned_less [of h, where ?'a = nat] by simp
  then have "unat h < 2 ^ LENGTH(64)" by simp
  then have b: "unat (ucast h :: u64) = unat h" by (rule unat_ucast_small)
  have "unat (ucast h :: u64) < 2 ^ LENGTH(32)" using a b by simp
  then have "unat (ucast (ucast h :: u64) :: u32) = unat h" using b by (simp add: unat_ucast_small)
  then show ?thesis by (metis unat_eq_0)
qed

lemma calculate_min_max_None_iff:
  "(calculate_min_max_v4l2_cid_exposure hmax vmax min_shr svr offset = None)
     = ((ucast hmax :: u32) = 0)"
  by (cases "(ucast hmax :: u32) = 0")
    (simp_all add: calculate_min_max_v4l2_cid_exposure_def calculate_v4l2_cid_exposure_def
      do_div_def Let_def)

lemma imx294_set_ctrl_vblank_standby:
  assumes sc: "(ucast (VMAX_scale (mode st)) :: u32) \<noteq> 0"
    and vm: "vm = (ucast (((ucast (height (mode st)) :: u64) + scast x)
                     div ucast (ucast (VMAX_scale (mode st)) :: u32)) :: u32)"
    and mm: "calculate_min_max_v4l2_cid_exposure (ucast (HMAX st)) (ucast vm)
               (min_SHR (mode st)) 0 (ucast (integration_offset (mode st))) = Some (mn, mx)"
    and off: "rpm st = RPM_NOT_IN_USE"
  shows "imx294_set_ctrl V4L2_CID_VBLANK x u st =
     Some (0, st\<lparr> VMAX := vm, exposure :=
        v4l2_ctrl_modify_range (exposure st) (sint mn) (sint mx) 1
          (sint (ucast (clamp_t_u32 u mn mx) :: u64)) \<rparr>)"
  using sc mm off unfolding vm
  by (simp add: imx294_set_ctrl_def do_div_def Let_def pm_runtime_get_if_in_use_def)

lemma imx294_set_ctrl_vblank_in_use:
  assumes sc: "(ucast (VMAX_scale (mode st)) :: u32) \<noteq> 0"
    and vm: "vm = (ucast (((ucast (height (mode st)) :: u64) + scast x)
                     div ucast (ucast (VMAX_scale (mode st)) :: u32)) :: u32)"
    and mm: "calculate_min_max_v4l2_cid_exposure (ucast (HMAX st)) (ucast vm)
               (min_SHR (mode st)) 0 (ucast (integration_offset (mode st))) = Some (mn, mx)"
    and on: "rpm st \<noteq> RPM_NOT_IN_USE"
    and vblk: "vblk = (ucast vm :: u64) - min_VMAX (mode st)"
  shows "\<exists>ret st'. imx294_set_ctrl V4L2_CID_VBLANK x u st = Some (ret, st')
     \<and> VMAX st' = vm
     \<and> exposure st' = v4l2_ctrl_modify_range (exposure st) (sint mn) (sint mx) 1
          (sint (ucast (clamp_t_u32 u mn mx) :: u64))
     \<and> HMAX st' = HMAX st \<and> mode st' = mode st \<and> rpm st' = rpm st
     \<and> pixel_rate st' = pixel_rate st \<and> vblank st' = vblank st \<and> hblank st' = hblank st
     \<and> i2c_sent st' = i2c_sent st @
          [buf_3byte IMX294_REG_VMAX vm,
           buf_2byte IMX294_REG_PSSLVS1 (ucast vblk),
           buf_2byte IMX294_REG_PSSLVS2 (ucast vblk),
           buf_2byte IMX294_REG_PSSLVS3 (ucast vblk),
           buf_2byte IMX294_REG_PSSLVS4 (if vblk \<le> 5 then 0 else ucast (vblk - 5)),
           buf_2byte IMX294_REG_PSSLVS0 (ucast vblk)]"
proof -
  have p: "pm_runtime_get_if_in_use (rpm st) \<noteq> 0"
    using on by (cases "rpm st") (simp_all add: pm_runtime_get_if_in_use_def EINVAL_def)
  show ?thesis
    using sc mm p unfolding vm vblk
    by (simp add: imx294_set_ctrl_def do_div_def Let_def imx294_write_reg_2byte_def
        imx294_write_reg_3byte_def i2c_master_send_def)
qed

lemma imx294_set_ctrl_vblank:
  assumes sc: "(ucast (VMAX_scale (mode st)) :: u32) \<noteq> 0"
    and hm: "HMAX st \<noteq> 0"
    and vm: "vm = (ucast (((ucast (height (mode st)) :: u64) + scast x)
                     div ucast (ucast (VMAX_scale (mode st)) :: u32)) :: u32)"
    and vblk: "vblk = (ucast vm :: u64) - min_VMAX (mode st)"
  shows "\<exists>ret st' mn mx.
       imx294_set_ctrl V4L2_CID_VBLANK x u st = Some (ret, st')
     \<and> calculate_min_max_v4l2_cid_exposure (ucast (HMAX st)) (ucast vm)
               (min_SHR (mode st)) 0 (ucast (integration_offset (mode st))) = Some (mn, mx)
     \<and> VMAX st' = vm
     \<and> exposure st' = v4l2_ctrl_modify_range (exposure st) (sint mn) (sint mx) 1
          (sint (ucast (clamp_t_u32 u mn mx) :: u64))
     \<and> HMAX st' = HMAX st \<and> mode st' = mode st \<and> rpm st' = rpm st
     \<and> pixel_rate st' = pixel_rate st \<and> vblank st' = vblank st \<and> hblank st' = hblank st
     \<and> (rpm st = RPM_NOT_IN_USE \<longrightarrow> ret = 0)
     \<and> i2c_sent st' = i2c_sent st @
          (if rpm st = RPM_NOT_IN_USE then []
           else [buf_3byte IMX294_REG_VMAX vm,
                 buf_2byte IMX294_REG_PSSLVS1 (ucast vblk),
                 buf_2byte IMX294_REG_PSSLVS2 (ucast vblk),
                 buf_2byte IMX294_REG_PSSLVS3 (ucast vblk),
                 buf_2byte IMX294_REG_PSSLVS4 (if vblk \<le> 5 then 0 else ucast (vblk - 5)),
                 buf_2byte IMX294_REG_PSSLVS0 (ucast vblk)])"
proof -
  have "(ucast (ucast (HMAX st) :: u64) :: u32) \<noteq> 0"
    using hm by (simp add: ucast_u16_u64_u32_eq_0)
  then have "calculate_min_max_v4l2_cid_exposure (ucast (HMAX st)) (ucast vm)
               (min_SHR (mode st)) 0 (ucast (integration_offset (mode st))) \<noteq> None"
    by (simp add: calculate_min_max_None_iff)
  then obtain mn mx where mm: "calculate_min_max_v4l2_cid_exposure (ucast (HMAX st)) (ucast vm)
               (min_SHR (mode st)) 0 (ucast (integration_offset (mode st))) = Some (mn, mx)"
    by auto
  show ?thesis
  proof (cases "rpm st = RPM_NOT_IN_USE")
    case True
    show ?thesis
      using imx294_set_ctrl_vblank_standby [OF sc vm mm True, of u] mm True by simp
  next
    case False
    show ?thesis
      using imx294_set_ctrl_vblank_in_use [OF sc vm mm False vblk, of u] mm False by auto
  qed
qed

section \<open>The vertical period\<close>

lemma uint_lt_of_unat_lt:
  fixes w :: "'a::len word"
  assumes "unat w < n"
  shows "uint w < int n"
  using assms by (simp only: uint_nat of_nat_less_iff)

lemma sint_u64_small:
  fixes w :: u64
  assumes "unat w < 2 ^ 63"
  shows "sint w = uint w"
proof -
  have "uint w < int (2 ^ 63)" using assms by (rule uint_lt_of_unat_lt)
  then have a: "uint w < 2 ^ 63" by simp
  have "- (2 ^ 63) \<le> (0::int)" by simp
  then have b: "- (2 ^ 63) \<le> uint w"
    using uint_ge_0 [of w] by (rule order_trans)
  have "sint w = signed_take_bit (LENGTH(64) - Suc 0) (uint w)" by (rule sint_uint)
  also have "\<dots> = signed_take_bit 63 (uint w)" by simp
  also have "\<dots> = uint w" using b a by (rule signed_take_bit_int_eq_self)
  finally show ?thesis .
qed

lemma uint_height_plus_val:
  fixes h x :: u32
  assumes "0 \<le> uint h + sint x"
  shows "uint ((ucast h :: u64) + scast x) = uint h + sint x"
proof -
  have "uint h < 2 ^ 32" using unsigned_less [of h, where ?'a = int] by simp
  moreover have "sint x < 2 ^ 31" using sint_lt [of x] by simp
  ultimately have b: "uint h + sint x < 2 ^ 64" by simp
  have "(ucast h :: u64) = word_of_int (uint h)" by (rule ucast_eq)
  moreover have "(scast x :: u64) = word_of_int (sint x)" by (rule scast_eq)
  ultimately have "(ucast h :: u64) + scast x = word_of_int (uint h + sint x)"
    by (simp only: wi_hom_add)
  then have "uint ((ucast h :: u64) + scast x) = uint (word_of_int (uint h + sint x) :: u64)"
    by (rule arg_cong)
  then have "uint ((ucast h :: u64) + scast x) = (uint h + sint x) mod 2 ^ 64"
    by (simp only: uint_word_of_int len_num1) simp
  then show ?thesis using assms b by simp
qed

lemma vertical_period_uint:
  fixes h x :: u32 and scale :: u64
  assumes sc: "0 < uint scale" "uint scale < 2 ^ 32"
    and x: "0 \<le> uint h + sint x"
    and fit: "(uint h + sint x) div uint scale < 2 ^ 32"
  shows "(ucast scale :: u32) \<noteq> 0"
    and "uint (ucast (((ucast h :: u64) + scast x) div ucast (ucast scale :: u32)) :: u32)
           = (uint h + sint x) div uint scale"
proof -
  have a: "uint (ucast scale :: u32) = uint scale"
    using sc by (simp add: uint_ucast_small)
  then show nz: "(ucast scale :: u32) \<noteq> 0" using sc by auto
  have "uint (ucast scale :: u32) < 2 ^ LENGTH(64)" using a sc by simp
  then have "uint (ucast (ucast scale :: u32) :: u64) = uint scale"
    using a by (simp add: uint_ucast_small)
  then have b: "(ucast (ucast scale :: u32) :: u64) = scale"
    by (simp add: word_uint_eq_iff)
  have "uint (((ucast h :: u64) + scast x) div scale) = (uint h + sint x) div uint scale"
    using uint_height_plus_val [OF x] by (simp add: uint_div)
  moreover from this have "uint (((ucast h :: u64) + scast x) div scale) < 2 ^ LENGTH(32)"
    using fit by simp
  ultimately show "uint (ucast (((ucast h :: u64) + scast x) div ucast (ucast scale :: u32)) :: u32)
           = (uint h + sint x) div uint scale"
    using b by (simp add: uint_ucast_small)
qed

text \<open>
  The range \<open>imx294_set_framing_limits\<close> gives the VBLANK control is
  \<open>[min_VMAX * scale - height, 0xFFFFF * scale - height]\<close>. For every catalog mode, a value
  in that range meets the arithmetic conditions of the two theorems on the vertical blank
  below.
\<close>

lemma catalog_vblank_range:
  assumes m: "m \<in> set supported_modes_12bit"
    and lo: "sint (min_VMAX m * VMAX_scale m - ucast (height m)) \<le> sint x"
    and hi: "sint x \<le> sint (IMX294_VMAX_MAX * VMAX_scale m - ucast (height m))"
  shows "0 < uint (VMAX_scale m) \<and> uint (VMAX_scale m) < 2 ^ 32
       \<and> 0 \<le> uint (height m) + sint x
       \<and> (uint (height m) + sint x) div uint (VMAX_scale m) < 2 ^ 32
       \<and> uint (min_SHR m) + 4 \<le> (uint (height m) + sint x) div uint (VMAX_scale m)
       \<and> uint (min_SHR m) \<le> 65535"
proof -
  consider "m = mode_01" | "m = mode_01A" | "m = mode_01B" | "m = mode_00"
    using m by (auto simp: supported_modes_12bit_def)
  then show ?thesis
  proof cases
    case 1
    have "38 \<le> sint x" "sint x \<le> 2094966"
      using lo hi by (simp_all add: 1 mode_01_def IMX294_VMAX_MAX_def)
    then have "9 \<le> (2184 + sint x) div 2" "(2184 + sint x) div 2 < 4294967296" by presburger+
    then show ?thesis using \<open>38 \<le> sint x\<close> by (simp add: 1 mode_01_def)
  next
    case 2
    have "38 \<le> sint x" "sint x \<le> 2094966"
      using lo hi by (simp_all add: 2 mode_01A_def IMX294_VMAX_MAX_def)
    then have "9 \<le> (2184 + sint x) div 2" "(2184 + sint x) div 2 < 4294967296" by presburger+
    then show ?thesis using \<open>38 \<le> sint x\<close> by (simp add: 2 mode_01A_def)
  next
    case 3
    have "42 \<le> sint x" "sint x \<le> 2094970"
      using lo hi by (simp_all add: 3 mode_01B_def IMX294_VMAX_MAX_def)
    then have "9 \<le> (2180 + sint x) div 2" "(2180 + sint x) div 2 < 4294967296" by presburger+
    then show ?thesis using \<open>42 \<le> sint x\<close> by (simp add: 3 mode_01B_def)
  next
    case 4
    have "48 \<le> sint x" "sint x \<le> 2094310"
      using lo hi by (simp_all add: 4 mode_00_def IMX294_VMAX_MAX_def)
    then have "9 \<le> (2840 + sint x) div 2" "(2840 + sint x) div 2 < 4294967296" by presburger+
    then show ?thesis using \<open>48 \<le> sint x\<close> by (simp add: 4 mode_00_def)
  qed
qed

text \<open>
  C5. Take a mode whose vertical scale is positive and fits the 32-bit divisor of
  \<open>do_div\<close>, a stored horizontal period other than zero (the exposure bounds are
  computed in the same call), and a VBLANK value \<open>x\<close> with \<open>height + x\<close> not negative
  and \<open>(height + x) div scale\<close> below \<open>2^32\<close>; by \<open>catalog_vblank_range\<close> every value
  of the control's range of a catalog mode is such a value. Then the call returns and the stored vertical period is exactly
  \<open>(height + x) div scale\<close>, whether the device is powered or not. For \<open>height = 2184\<close>,
  \<open>scale = 2\<close> and \<open>x = 2816\<close> it is 2500.
\<close>

theorem set_vblank_vertical_period:
  assumes sc: "0 < uint (VMAX_scale (mode st))" "uint (VMAX_scale (mode st)) < 2 ^ 32"
    and hm: "HMAX st \<noteq> 0"
    and x: "0 \<le> uint (height (mode st)) + sint x"
    and fit: "(uint (height (mode st)) + sint x) div uint (VMAX_scale (mode st)) < 2 ^ 32"
  shows "\<exists>ret st'. imx294_set_ctrl V4L2_CID_VBLANK x uninit st = Some (ret, st')
           \<and> uint (VMAX st') = (uint (height (mode st)) + sint x) div uint (VMAX_scale (mode st))"
proof -
  note v = vertical_period_uint [OF sc x fit]
  obtain ret st' where "imx294_set_ctrl V4L2_CID_VBLANK x uninit st = Some (ret, st')"
    and "VMAX st' = (ucast (((ucast (height (mode st)) :: u64) + scast x)
                     div ucast (ucast (VMAX_scale (mode st)) :: u32)) :: u32)"
    using imx294_set_ctrl_vblank [OF v(1) hm refl refl, of x uninit] by blast
  then show ?thesis using v(2) by auto
qed

theorem set_vblank_vertical_period_witness:
  "0 < uint (VMAX_scale (mode attached_standby))
   \<and> uint (VMAX_scale (mode attached_standby)) < 2 ^ 32
   \<and> HMAX attached_standby \<noteq> 0
   \<and> 0 \<le> uint (height (mode attached_standby)) + sint (2816 :: u32)
   \<and> (uint (height (mode attached_standby)) + sint (2816 :: u32))
        div uint (VMAX_scale (mode attached_standby)) < 2 ^ 32
   \<and> height (mode attached_standby) = 2184 \<and> VMAX_scale (mode attached_standby) = 2
   \<and> (\<exists>ret st'. imx294_set_ctrl V4L2_CID_VBLANK 2816 0 attached_standby = Some (ret, st')
          \<and> uint (VMAX st') = 2500)"
proof -
  have sc: "0 < uint (VMAX_scale (mode attached_standby))"
      "uint (VMAX_scale (mode attached_standby)) < 2 ^ 32"
    by (simp_all add: attached_standby_def mode_01_def)
  have hm: "HMAX attached_standby \<noteq> 0" by (simp add: attached_standby_def)
  have x: "0 \<le> uint (height (mode attached_standby)) + sint (2816 :: u32)"
    by (simp add: attached_standby_def mode_01_def)
  have fit: "(uint (height (mode attached_standby)) + sint (2816 :: u32))
        div uint (VMAX_scale (mode attached_standby)) < 2 ^ 32"
    by (simp add: attached_standby_def mode_01_def)
  have m: "height (mode attached_standby) = 2184" "VMAX_scale (mode attached_standby) = 2"
    by (simp_all add: attached_standby_def mode_01_def)
  show ?thesis
    using sc hm x fit m set_vblank_vertical_period [OF sc hm x fit, of 0]
    by simp
qed

section \<open>Exposure bounds in the legal shutter range\<close>

lemma unat_ucast_up16: "unat (ucast (w :: u16) :: u64) = unat w"
proof -
  have "unat w < 2 ^ 16" using unsigned_less [of w, where ?'a = nat] by simp
  then have "unat w < 2 ^ LENGTH(64)" by simp
  then show ?thesis by (rule unat_ucast_small)
qed

lemma exposure_bounds_ordered:
  fixes hmax vmax min_shr offset :: u64
  assumes h: "0 < unat hmax" "unat hmax < 2 ^ 32"
    and V: "unat vmax < 2 ^ 32"
    and s: "unat min_shr + 4 \<le> unat vmax" "unat min_shr \<le> 65535"
    and o: "unat offset < unat hmax"
  shows "\<exists>mn mx. calculate_min_max_v4l2_cid_exposure hmax vmax min_shr 0 offset = Some (mn, mx)
           \<and> unat mn = unat vmax - min 65535 (unat vmax - 4)
           \<and> unat mx = unat vmax - unat min_shr"
proof -
  let ?ms = "min_t_u64 ((0 + 1) * vmax - 4) 0xFFFF"
  have v4: "unat (vmax - 4) = unat vmax - 4"
    using s by (simp add: unat_sub word_le_nat_alt)
  have ums: "unat ?ms = min 65535 (unat vmax - 4)"
    using v4 by (simp add: min_t_u64_def min_def word_le_nat_alt)
  have msle: "unat ?ms \<le> unat vmax" using ums by simp
  have prod: "a * unat hmax + unat offset < 2 ^ 64" if a: "a \<le> unat vmax" for a
  proof -
    have "a * unat hmax + unat offset < a * unat hmax + unat hmax" using o by simp
    also have "\<dots> = (a + 1) * unat hmax" by (simp add: algebra_simps)
    also have "\<dots> \<le> 2 ^ 32 * 2 ^ 32"
      using a V h by (intro mult_mono) simp_all
    finally show ?thesis by simp
  qed
  have q: "(a * unat hmax + unat offset) div unat hmax = a" for a using o by simp
  have e: "\<exists>e. calculate_v4l2_cid_exposure hmax vmax sh 0 offset = Some e
             \<and> unat e = unat vmax - unat sh" if sh: "unat sh \<le> unat vmax" for sh
  proof -
    have "\<exists>e. calculate_v4l2_cid_exposure hmax vmax sh 0 offset = Some e
      \<and> unat e = ((unat vmax * (unat (0::u64) + 1) - unat sh) * unat hmax + unat offset) div unat hmax"
    proof (rule calculate_v4l2_cid_exposure_unat)
      show "0 < unat hmax" "unat hmax < 2 ^ 32" by (rule h)+
      show "unat (0::u64) + 1 < 2 ^ 64" by simp
      show "unat vmax * (unat (0::u64) + 1) < 2 ^ 64" using V by simp
      show "unat sh \<le> unat vmax * (unat (0::u64) + 1)" using sh by simp
      show "(unat vmax * (unat (0::u64) + 1) - unat sh) * unat hmax + unat offset < 2 ^ 64"
        using prod [of "unat vmax - unat sh"] by simp
      show "((unat vmax * (unat (0::u64) + 1) - unat sh) * unat hmax + unat offset) div unat hmax < 2 ^ 32"
        using q [of "unat vmax - unat sh"] V by simp
    qed
    then show ?thesis using q [of "unat vmax - unat sh"] by simp
  qed
  obtain mn where mn: "calculate_v4l2_cid_exposure hmax vmax ?ms 0 offset = Some mn"
      "unat mn = unat vmax - unat ?ms"
    using e [OF msle] by blast
  have "unat min_shr \<le> unat vmax" using s by simp
  then obtain mx where mx: "calculate_v4l2_cid_exposure hmax vmax min_shr 0 offset = Some mx"
      "unat mx = unat vmax - unat min_shr"
    using e [of min_shr] by blast
  show ?thesis
    using mn mx ums by (simp add: calculate_min_max_v4l2_cid_exposure_def Let_def)
qed

section \<open>Evaluation on the attached device\<close>

lemmas imx294_regs =
  IMX294_REG_VMAX_def IMX294_REG_HMAX_def IMX294_REG_HCOUNT1_def IMX294_REG_HCOUNT2_def
  IMX294_REG_PSSLVS0_def IMX294_REG_PSSLVS1_def IMX294_REG_PSSLVS2_def IMX294_REG_PSSLVS3_def
  IMX294_REG_PSSLVS4_def IMX294_REG_SHR_def IMX294_REG_ANALOG_GAIN_def

lemma attached_fields:
  "mode attached_standby = mode_01" "HMAX attached_standby = 1200"
  "VMAX attached_standby = 2500" "rpm attached_standby = RPM_NOT_IN_USE"
  "i2c_sent attached_standby = []"
  "mode attached_in_use = mode_01" "HMAX attached_in_use = 1200"
  "VMAX attached_in_use = 2500" "rpm attached_in_use = RPM_IN_USE"
  "i2c_sent attached_in_use = []"
  by (simp_all add: attached_standby_def attached_in_use_def)

lemma mode_01_fields:
  "width mode_01 = 4144" "height mode_01 = 2184" "min_HMAX mode_01 = 1122"
  "min_VMAX mode_01 = 1111" "default_HMAX mode_01 = 1200" "default_VMAX mode_01 = 2500"
  "VMAX_scale mode_01 = 2" "min_SHR mode_01 = 5" "integration_offset mode_01 = 256"
  by (simp_all add: mode_01_def)

lemma bounds_1200_2500:
  "calculate_min_max_v4l2_cid_exposure 1200 2500 5 0 256 = Some (4, 2495)"
  by (simp add: calculate_min_max_v4l2_cid_exposure_def calculate_v4l2_cid_exposure_def
      do_div_def clamp_t_u32_def min_t_u64_def)

lemma attached_long_exposure_fields:
  "mode attached_long_exposure = mode_01" "HMAX attached_long_exposure = 1200"
  "rpm attached_long_exposure = RPM_NOT_IN_USE" "val (exposure attached_long_exposure) = 2000"
  by (simp_all add: attached_long_exposure_def attached_standby_def)

lemma bounds_1200_1111:
  "calculate_min_max_v4l2_cid_exposure 1200 1111 5 0 256 = Some (4, 1106)"
  by (simp add: calculate_min_max_v4l2_cid_exposure_def calculate_v4l2_cid_exposure_def
      do_div_def clamp_t_u32_def min_t_u64_def)

lemma bounds_1200_1236:
  "calculate_min_max_v4l2_cid_exposure 1200 1236 5 0 256 = Some (4, 1231)"
  by (simp add: calculate_min_max_v4l2_cid_exposure_def calculate_v4l2_cid_exposure_def
      do_div_def clamp_t_u32_def min_t_u64_def)

lemma attached_controls:
  "exposure attached_standby
     = \<lparr> minimum = 4, maximum = 2495, step = 1, default_value = 4, val = 1000 \<rparr>"
  "minimum (hblank attached_standby) = 0" "maximum (hblank attached_standby) = 65535"
  "minimum (analogue_gain attached_standby) = 0" "maximum (analogue_gain attached_standby) = 1957"
  "\<not> i2c_fails attached_standby n"
  by (simp_all add: attached_standby_def)

section \<open>Claims about the vertical-blank control\<close>

text \<open>
  C6, as stated, fails. On the attached device held in use, setting VBLANK to 2816 sends the
  3-byte vertical-period frame and then five 2-byte frames, to 0x332C, 0x334A, 0x35B6,
  0x35B8 and 0x36BC: five dependent registers, not four.
\<close>

theorem set_vblank_writes_five_compensation_registers:
  "map_option (i2c_sent \<circ> snd) (imx294_set_ctrl V4L2_CID_VBLANK 2816 0 attached_in_use) =
     Some [[0x30, 0xA9, 0xC4, 0x09, 0x00],
           [0x33, 0x2C, 0x6D, 0x05], [0x33, 0x4A, 0x6D, 0x05], [0x35, 0xB6, 0x6D, 0x05],
           [0x35, 0xB8, 0x68, 0x05], [0x36, 0xBC, 0x6D, 0x05]]
   \<and> map_option (length \<circ> tl \<circ> i2c_sent \<circ> snd)
         (imx294_set_ctrl V4L2_CID_VBLANK 2816 0 attached_in_use) \<noteq> Some 4"
proof -
  have sc: "(ucast (VMAX_scale (mode attached_in_use)) :: u32) \<noteq> 0"
    by (simp add: attached_fields mode_01_fields)
  have vm: "(2500 :: u32) = ucast (((ucast (height (mode attached_in_use)) :: u64) + scast (2816 :: u32))
                     div ucast (ucast (VMAX_scale (mode attached_in_use)) :: u32))"
    by (simp add: attached_fields mode_01_fields)
  have mm: "calculate_min_max_v4l2_cid_exposure (ucast (HMAX attached_in_use))
             (ucast (2500 :: u32)) (min_SHR (mode attached_in_use)) 0
             (ucast (integration_offset (mode attached_in_use))) = Some (4, 2495)"
    by (simp add: attached_fields mode_01_fields bounds_1200_2500)
  have on: "rpm attached_in_use \<noteq> RPM_NOT_IN_USE" by (simp add: attached_fields)
  have vblk: "(1389 :: u64) = ucast (2500 :: u32) - min_VMAX (mode attached_in_use)"
    by (simp add: attached_fields mode_01_fields)
  obtain ret st' where r: "imx294_set_ctrl V4L2_CID_VBLANK 2816 0 attached_in_use = Some (ret, st')"
    and w: "i2c_sent st' = i2c_sent attached_in_use @
          [buf_3byte IMX294_REG_VMAX 2500,
           buf_2byte IMX294_REG_PSSLVS1 (ucast (1389 :: u64)),
           buf_2byte IMX294_REG_PSSLVS2 (ucast (1389 :: u64)),
           buf_2byte IMX294_REG_PSSLVS3 (ucast (1389 :: u64)),
           buf_2byte IMX294_REG_PSSLVS4 (if (1389 :: u64) \<le> 5 then 0 else ucast ((1389 :: u64) - 5)),
           buf_2byte IMX294_REG_PSSLVS0 (ucast (1389 :: u64))]"
    using imx294_set_ctrl_vblank_in_use [OF sc vm mm on vblk, of 0] by blast
  have "i2c_sent st' = [[0x30, 0xA9, 0xC4, 0x09, 0x00],
           [0x33, 0x2C, 0x6D, 0x05], [0x33, 0x4A, 0x6D, 0x05], [0x35, 0xB6, 0x6D, 0x05],
           [0x35, 0xB8, 0x68, 0x05], [0x36, 0xBC, 0x6D, 0x05]]"
    unfolding w
    by (simp add: attached_fields buf_2byte_def buf_3byte_def put_unaligned_be16_def imx294_regs)
  then show ?thesis using r by simp
qed

text \<open>
  C6, amended. While the device is not in standby, the handler writes the 3-byte
  vertical-period register and then exactly five dependent 2-byte registers, PSSLVS1,
  PSSLVS2, PSSLVS3, PSSLVS4 and PSSLVS0, in that order. With the margin
  \<open>vblk = VMAX - min_VMAX\<close> (in 64-bit unsigned arithmetic), PSSLVS4 is written as zero
  when \<open>vblk \<le> 5\<close> and as \<open>vblk - 5\<close> otherwise; the other four are written with
  \<open>vblk\<close>. Each value is cut to the 16 bits of the register.
\<close>

theorem set_vblank_register_writes:
  assumes sc: "(ucast (VMAX_scale (mode st)) :: u32) \<noteq> 0"
    and hm: "HMAX st \<noteq> 0"
    and on: "rpm st \<noteq> RPM_NOT_IN_USE"
  shows "\<exists>ret st' vblk.
         imx294_set_ctrl V4L2_CID_VBLANK x uninit st = Some (ret, st')
       \<and> vblk = (ucast (VMAX st') :: u64) - min_VMAX (mode st)
       \<and> i2c_sent st' = i2c_sent st @
           [buf_3byte IMX294_REG_VMAX (VMAX st'),
            buf_2byte IMX294_REG_PSSLVS1 (ucast vblk),
            buf_2byte IMX294_REG_PSSLVS2 (ucast vblk),
            buf_2byte IMX294_REG_PSSLVS3 (ucast vblk),
            buf_2byte IMX294_REG_PSSLVS4 (if vblk \<le> 5 then 0 else ucast (vblk - 5)),
            buf_2byte IMX294_REG_PSSLVS0 (ucast vblk)]"
proof -
  define vm where "vm = (ucast (((ucast (height (mode st)) :: u64) + scast x)
                     div ucast (ucast (VMAX_scale (mode st)) :: u32)) :: u32)"
  define vblk where "vblk = (ucast vm :: u64) - min_VMAX (mode st)"
  obtain ret st' where r: "imx294_set_ctrl V4L2_CID_VBLANK x uninit st = Some (ret, st')"
    and v: "VMAX st' = vm"
    and w: "i2c_sent st' = i2c_sent st @
          (if rpm st = RPM_NOT_IN_USE then []
           else [buf_3byte IMX294_REG_VMAX vm,
                 buf_2byte IMX294_REG_PSSLVS1 (ucast vblk),
                 buf_2byte IMX294_REG_PSSLVS2 (ucast vblk),
                 buf_2byte IMX294_REG_PSSLVS3 (ucast vblk),
                 buf_2byte IMX294_REG_PSSLVS4 (if vblk \<le> 5 then 0 else ucast (vblk - 5)),
                 buf_2byte IMX294_REG_PSSLVS0 (ucast vblk)])"
    using imx294_set_ctrl_vblank [OF sc hm vm_def vblk_def, of uninit] by blast
  have "vblk = (ucast (VMAX st') :: u64) - min_VMAX (mode st)"
    using v vblk_def by simp
  then show ?thesis using r v w on by simp
qed


theorem set_vblank_register_writes_witness:
  "(ucast (VMAX_scale (mode attached_in_use)) :: u32) \<noteq> 0
   \<and> HMAX attached_in_use \<noteq> 0 \<and> rpm attached_in_use \<noteq> RPM_NOT_IN_USE
   \<and> (\<exists>ret st' vblk.
         imx294_set_ctrl V4L2_CID_VBLANK 2816 0 attached_in_use = Some (ret, st')
       \<and> vblk = (ucast (VMAX st') :: u64) - min_VMAX (mode attached_in_use)
       \<and> i2c_sent st' = i2c_sent attached_in_use @
           [buf_3byte IMX294_REG_VMAX (VMAX st'),
            buf_2byte IMX294_REG_PSSLVS1 (ucast vblk),
            buf_2byte IMX294_REG_PSSLVS2 (ucast vblk),
            buf_2byte IMX294_REG_PSSLVS3 (ucast vblk),
            buf_2byte IMX294_REG_PSSLVS4 (if vblk \<le> 5 then 0 else ucast (vblk - 5)),
            buf_2byte IMX294_REG_PSSLVS0 (ucast vblk)])"
proof -
  have sc: "(ucast (VMAX_scale (mode attached_in_use)) :: u32) \<noteq> 0"
    by (simp add: attached_in_use_def attached_standby_def mode_01_def)
  have hm: "HMAX attached_in_use \<noteq> 0"
    by (simp add: attached_in_use_def attached_standby_def)
  have on: "rpm attached_in_use \<noteq> RPM_NOT_IN_USE"
    by (simp add: attached_in_use_def)
  show ?thesis
    using sc hm on set_vblank_register_writes [OF sc hm on, of 2816 0] by blast
qed

text \<open>
  C7. Take a VBLANK value in the legal range: the new vertical period
  \<open>V = (height + x) div scale\<close> fits 32 bits and leaves room for the shortest shutter
  offset (\<open>min_SHR + 4 \<le> V\<close>, \<open>min_SHR \<le> 65535\<close>); the horizontal period is not zero
  and exceeds the integration offset. Then every call, in standby as well, recomputes the
  exposure bounds for the stored horizontal period and the new vertical period, makes them
  the range of the exposure control, and leaves as its value the previous value clamped
  into the new bounds, which is then inside them. In standby the call reports success and
  sends nothing. The re-ranging itself is done by the control framework, as modelled by
  \<open>v4l2_ctrl_modify_range\<close>.
\<close>

theorem set_vblank_reranges_exposure:
  assumes sc: "0 < uint (VMAX_scale (mode st))" "uint (VMAX_scale (mode st)) < 2 ^ 32"
    and hm: "HMAX st \<noteq> 0"
    and x: "0 \<le> uint (height (mode st)) + sint x"
    and V: "V = (uint (height (mode st)) + sint x) div uint (VMAX_scale (mode st))"
    and fit: "V < 2 ^ 32"
    and shr: "uint (min_SHR (mode st)) + 4 \<le> V" "uint (min_SHR (mode st)) \<le> 65535"
    and off: "uint (integration_offset (mode st)) < uint (HMAX st)"
  shows "\<exists>ret st' mn mx.
         imx294_set_ctrl V4L2_CID_VBLANK x uninit st = Some (ret, st')
       \<and> calculate_min_max_v4l2_cid_exposure (ucast (HMAX st')) (ucast (VMAX st'))
            (min_SHR (mode st')) 0 (ucast (integration_offset (mode st'))) = Some (mn, mx)
       \<and> minimum (exposure st') = uint mn \<and> maximum (exposure st') = uint mx
       \<and> val (exposure st') = clamp_int (val (exposure st)) (uint mn) (uint mx)
       \<and> uint mn \<le> val (exposure st') \<and> val (exposure st') \<le> uint mx
       \<and> (rpm st = RPM_NOT_IN_USE \<longrightarrow> ret = 0 \<and> i2c_sent st' = i2c_sent st)"
proof -
  let ?vm = "(ucast (((ucast (height (mode st)) :: u64) + scast x)
                     div ucast (ucast (VMAX_scale (mode st)) :: u32)) :: u32)"
  have fit': "(uint (height (mode st)) + sint x) div uint (VMAX_scale (mode st)) < 2 ^ 32"
    using V fit by simp
  note v = vertical_period_uint [OF sc x fit']
  obtain ret st' mn mx where
      r: "imx294_set_ctrl V4L2_CID_VBLANK x uninit st = Some (ret, st')"
    and mm: "calculate_min_max_v4l2_cid_exposure (ucast (HMAX st)) (ucast ?vm)
               (min_SHR (mode st)) 0 (ucast (integration_offset (mode st))) = Some (mn, mx)"
    and f: "VMAX st' = ?vm" "HMAX st' = HMAX st" "mode st' = mode st"
    and e: "exposure st' = v4l2_ctrl_modify_range (exposure st) (sint mn) (sint mx) 1
          (sint (ucast (clamp_t_u32 uninit mn mx) :: u64))"
    and io: "rpm st = RPM_NOT_IN_USE \<longrightarrow> ret = 0"
        "rpm st = RPM_NOT_IN_USE \<longrightarrow> i2c_sent st' = i2c_sent st"
    using imx294_set_ctrl_vblank [OF v(1) hm refl refl, of x uninit] by auto
  have uvm: "uint ?vm = V" using v(2) V by simp
  have Vn: "0 \<le> V" using shr(1) uint_ge_0 [of "min_SHR (mode st)"] by linarith
  have "unat ?vm = nat V" using uvm by (simp only: unat_eq_nat_uint)
  then have nvm: "unat (ucast ?vm :: u64) = nat V"
    by (simp only: unat_ucast_up32)
  have nV: "nat V < 2 ^ 32" using fit Vn by simp
  have ns: "unat (min_SHR (mode st)) + 4 \<le> nat V" "unat (min_SHR (mode st)) \<le> 65535"
    using shr Vn uint_ge_0 [of "min_SHR (mode st)"]
    by (simp_all only: unat_eq_nat_uint, linarith?)+
  have no: "unat (integration_offset (mode st)) < unat (HMAX st)"
    using off uint_ge_0 [of "integration_offset (mode st)"] uint_ge_0 [of "HMAX st"]
    by (simp only: unat_eq_nat_uint, linarith?)
  have "\<exists>mn mx. calculate_min_max_v4l2_cid_exposure (ucast (HMAX st)) (ucast ?vm)
               (min_SHR (mode st)) 0 (ucast (integration_offset (mode st))) = Some (mn, mx)
           \<and> unat mn = unat (ucast ?vm :: u64) - min 65535 (unat (ucast ?vm :: u64) - 4)
           \<and> unat mx = unat (ucast ?vm :: u64) - unat (min_SHR (mode st))"
  proof (rule exposure_bounds_ordered)
    show "0 < unat (ucast (HMAX st) :: u64)"
      using hm by (simp add: unat_ucast_up16 unat_gt_0)
    show "unat (ucast (HMAX st) :: u64) < 2 ^ 32"
      using unsigned_less [of "HMAX st", where ?'a = nat] by (simp add: unat_ucast_up16)
    show "unat (ucast ?vm :: u64) < 2 ^ 32" using nvm nV by simp
    show "unat (min_SHR (mode st)) + 4 \<le> unat (ucast ?vm :: u64)"
      using nvm ns(1) by simp
    show "unat (min_SHR (mode st)) \<le> 65535" by (rule ns(2))
    show "unat (ucast (integration_offset (mode st)) :: u64) < unat (ucast (HMAX st) :: u64)"
      using no by (simp add: unat_ucast_up16 unat_ucast_up32)
  qed
  then have un: "unat mn = nat V - min 65535 (nat V - 4)"
      "unat mx = nat V - unat (min_SHR (mode st))"
    using mm nvm by auto
  have le: "unat mn \<le> unat mx" using un ns by linarith
  have "unat mx \<le> nat V" using un by simp
  then have "unat mx < 2 ^ 32" using nV by (rule le_less_trans)
  moreover have "(2::nat) ^ 32 \<le> 2 ^ 63" by simp
  ultimately have bx: "unat mx < 2 ^ 63" by (rule less_le_trans)
  have b: "unat mx < 2 ^ 63" "unat mn < 2 ^ 63"
    using bx le by (simp_all only: le_less_trans [OF le bx])
  have sn: "sint mn = uint mn" "sint mx = uint mx"
    using b by (simp_all only: sint_u64_small)
  have ule: "uint mn \<le> uint mx" using le by (simp only: uint_nat of_nat_le_iff)
  have ex: "minimum (exposure st') = uint mn" "maximum (exposure st') = uint mx"
      "val (exposure st') = clamp_int (val (exposure st)) (uint mn) (uint mx)"
    using e sn by (simp_all add: v4l2_ctrl_modify_range_def)
  have rng: "uint mn \<le> val (exposure st')" "val (exposure st') \<le> uint mx"
    using ex(3) ule by (simp_all add: clamp_int_def)
  show ?thesis
    using r mm f ex rng io by auto
qed

theorem set_vblank_reranges_exposure_witness:
  "0 < uint (VMAX_scale (mode attached_long_exposure))
   \<and> uint (VMAX_scale (mode attached_long_exposure)) < 2 ^ 32
   \<and> HMAX attached_long_exposure \<noteq> 0
   \<and> 0 \<le> uint (height (mode attached_long_exposure)) + sint (38 :: u32)
   \<and> (1111 :: int) = (uint (height (mode attached_long_exposure)) + sint (38 :: u32))
                       div uint (VMAX_scale (mode attached_long_exposure))
   \<and> (1111 :: int) < 2 ^ 32
   \<and> uint (min_SHR (mode attached_long_exposure)) + 4 \<le> 1111
   \<and> uint (min_SHR (mode attached_long_exposure)) \<le> 65535
   \<and> uint (integration_offset (mode attached_long_exposure)) < uint (HMAX attached_long_exposure)
   \<and> rpm attached_long_exposure = RPM_NOT_IN_USE
   \<and> val (exposure attached_long_exposure) = 2000
   \<and> (\<exists>ret st' mn mx.
         imx294_set_ctrl V4L2_CID_VBLANK 38 0 attached_long_exposure = Some (ret, st')
       \<and> calculate_min_max_v4l2_cid_exposure (ucast (HMAX st')) (ucast (VMAX st'))
            (min_SHR (mode st')) 0 (ucast (integration_offset (mode st'))) = Some (mn, mx)
       \<and> minimum (exposure st') = uint mn \<and> maximum (exposure st') = uint mx
       \<and> val (exposure st') = clamp_int 2000 (uint mn) (uint mx)
       \<and> uint mn \<le> val (exposure st') \<and> val (exposure st') \<le> uint mx
       \<and> ret = 0 \<and> i2c_sent st' = i2c_sent attached_long_exposure)
   \<and> map_option (val \<circ> exposure \<circ> snd)
         (imx294_set_ctrl V4L2_CID_VBLANK 38 0 attached_long_exposure) = Some 1106"
proof -
  note f = attached_long_exposure_fields mode_01_fields
  have sc: "0 < uint (VMAX_scale (mode attached_long_exposure))"
      "uint (VMAX_scale (mode attached_long_exposure)) < 2 ^ 32"
    by (simp_all add: f)
  have hm: "HMAX attached_long_exposure \<noteq> 0" by (simp add: f)
  have x: "0 \<le> uint (height (mode attached_long_exposure)) + sint (38 :: u32)"
    by (simp add: f)
  have V: "(1111 :: int) = (uint (height (mode attached_long_exposure)) + sint (38 :: u32))
                       div uint (VMAX_scale (mode attached_long_exposure))"
    by (simp add: f)
  have fit: "(1111 :: int) < 2 ^ 32" by simp
  have shr: "uint (min_SHR (mode attached_long_exposure)) + 4 \<le> 1111"
      "uint (min_SHR (mode attached_long_exposure)) \<le> 65535"
    by (simp_all add: f)
  have off: "uint (integration_offset (mode attached_long_exposure))
      < uint (HMAX attached_long_exposure)"
    by (simp add: f)
  have standby: "rpm attached_long_exposure = RPM_NOT_IN_USE" by (simp add: f)
  have ev: "val (exposure attached_long_exposure) = 2000" by (simp add: f)
  have sc32: "(ucast (VMAX_scale (mode attached_long_exposure)) :: u32) \<noteq> 0"
    by (simp add: f)
  have vm: "(1111 :: u32) = ucast (((ucast (height (mode attached_long_exposure)) :: u64)
                + scast (38 :: u32))
              div ucast (ucast (VMAX_scale (mode attached_long_exposure)) :: u32))"
    by (simp add: f)
  have mm: "calculate_min_max_v4l2_cid_exposure (ucast (HMAX attached_long_exposure))
             (ucast (1111 :: u32)) (min_SHR (mode attached_long_exposure)) 0
             (ucast (integration_offset (mode attached_long_exposure))) = Some (4, 1106)"
    by (simp add: f bounds_1200_1111)
  have "map_option (val \<circ> exposure \<circ> snd)
         (imx294_set_ctrl V4L2_CID_VBLANK 38 0 attached_long_exposure) = Some 1106"
    using imx294_set_ctrl_vblank_standby [OF sc32 vm mm standby, of 0] ev
    by (simp add: v4l2_ctrl_modify_range_def clamp_int_def)
  then show ?thesis
    using sc hm x V fit shr off standby ev
      set_vblank_reranges_exposure [OF sc hm x V fit shr off, of 0]
    by simp
qed

section \<open>Claims about calls in standby\<close>

text \<open>
  C8, as stated, fails. The horizontal period is stored only behind the power check: on the
  attached device, setting HBLANK to 0 in standby leaves the stored horizontal period at
  1200, while the same call on the device in use stores 1122.
\<close>

theorem set_hblank_standby_keeps_hmax:
  "map_option (HMAX \<circ> snd) (imx294_set_ctrl V4L2_CID_HBLANK 0 0 attached_standby) = Some 1200
   \<and> map_option (HMAX \<circ> snd) (imx294_set_ctrl V4L2_CID_HBLANK 0 0 attached_in_use) = Some 1122"
proof -
  have "imx294_set_ctrl V4L2_CID_HBLANK 0 0 attached_standby = Some (0, attached_standby)"
    by (rule imx294_set_ctrl_standby) (simp_all add: attached_fields)
  then have a: "map_option (HMAX \<circ> snd) (imx294_set_ctrl V4L2_CID_HBLANK 0 0 attached_standby)
      = Some 1200"
    by (simp add: attached_fields)
  have on: "rpm attached_in_use \<noteq> RPM_NOT_IN_USE" by (simp add: attached_fields)
  have pr: "do_div (ucast (width (mode attached_in_use)) * 72000000)
      (min_HMAX (mode attached_in_use)) = Some 265925133"
    by (simp add: attached_fields mode_01_fields do_div_def)
  have hm: "do_div (ucast (width (mode attached_in_use) + 0) * 72000000) 265925133 = Some 1122"
    by (simp add: attached_fields mode_01_fields do_div_def)
  obtain ret where "imx294_set_ctrl V4L2_CID_HBLANK 0 0 attached_in_use =
     Some (ret, attached_in_use\<lparr> HMAX := ucast (1122 :: u64),
       i2c_sent := i2c_sent attached_in_use @ [buf_2byte IMX294_REG_HMAX (ucast (1122 :: u64)),
         buf_2byte IMX294_REG_HCOUNT1 (ucast (1122 :: u64)),
         buf_2byte IMX294_REG_HCOUNT2 (ucast (1122 :: u64))] \<rparr>)"
    using imx294_set_ctrl_hblank_in_use [OF on pr hm, of 0] by blast
  then have "map_option (HMAX \<circ> snd) (imx294_set_ctrl V4L2_CID_HBLANK 0 0 attached_in_use)
      = Some 1122"
    by simp
  then show ?thesis using a by simp
qed

text \<open>
  C8, amended. For each of the four settable controls, a set call made in standby returns
  success and sends nothing. It still updates the in-memory state as a successful call on
  the device in use does, with one exception. The vertical-blank call stores the vertical
  period \<open>vm\<close> and re-ranges the exposure control to the bounds computed for it, and so
  does the call in use. The exposure and gain calls leave the handler with the device
  structure as it was, and the setter of the control surface (\<open>v4l2_ctrl_s_ctrl\<close>, modelled
  from the specification) then stores the control's value, the same value a call in use
  that the bus answers stores. The exception is the horizontal period: the horizontal-blank
  call in standby stores the control's value but keeps the stored horizontal period, which
  only a call in use recomputes.
\<close>

theorem set_ctrl_in_standby:
  assumes off: "rpm st = RPM_NOT_IN_USE"
    and on: "st_on = st\<lparr> rpm := RPM_IN_USE \<rparr>"
    and sc: "(ucast (VMAX_scale (mode st)) :: u32) \<noteq> 0"
    and hm: "HMAX st \<noteq> 0"
    and ok: "\<not> i2c_fails st (length (i2c_sent st))"
    and vm: "vm = (ucast (((ucast (height (mode st)) :: u64) + scast x)
                     div ucast (ucast (VMAX_scale (mode st)) :: u32)) :: u32)"
    and pr: "do_div (ucast (width (mode st)) * 72000000) (min_HMAX (mode st)) = Some pr"
    and hx: "do_div (ucast (width (mode st) + hb) * 72000000) pr = Some hmx"
    and ev: "ev = clamp_int e (minimum (exposure st)) (maximum (exposure st))"
    and gv: "gv = clamp_int g (minimum (analogue_gain st)) (maximum (analogue_gain st))"
    and hv: "hv = clamp_int h (minimum (hblank st)) (maximum (hblank st))"
  shows "\<exists>mn mx ret_v on_v ret_h on_h on_e on_g.
         calculate_min_max_v4l2_cid_exposure (ucast (HMAX st)) (ucast vm)
           (min_SHR (mode st)) 0 (ucast (integration_offset (mode st))) = Some (mn, mx)
       \<and> imx294_set_ctrl V4L2_CID_VBLANK x uninit st =
           Some (0, st\<lparr> VMAX := vm, exposure :=
             v4l2_ctrl_modify_range (exposure st) (sint mn) (sint mx) 1
               (sint (ucast (clamp_t_u32 uninit mn mx) :: u64)) \<rparr>)
       \<and> imx294_set_ctrl V4L2_CID_VBLANK x uninit st_on = Some (ret_v, on_v)
       \<and> VMAX on_v = vm
       \<and> exposure on_v =
             v4l2_ctrl_modify_range (exposure st) (sint mn) (sint mx) 1
               (sint (ucast (clamp_t_u32 uninit mn mx) :: u64))
       \<and> imx294_set_ctrl V4L2_CID_HBLANK hb uninit st = Some (0, st)
       \<and> imx294_set_ctrl V4L2_CID_HBLANK hb uninit st_on = Some (ret_h, on_h)
       \<and> HMAX on_h = ucast hmx
       \<and> v4l2_ctrl_s_ctrl hblank hblank_update V4L2_CID_HBLANK h uninit st =
           Some (0, st\<lparr> hblank := (hblank st)\<lparr> val := hv \<rparr> \<rparr>)
       \<and> imx294_set_ctrl V4L2_CID_EXPOSURE ex uninit st = Some (0, st)
       \<and> v4l2_ctrl_s_ctrl exposure exposure_update V4L2_CID_EXPOSURE e uninit st =
           Some (0, st\<lparr> exposure := (exposure st)\<lparr> val := ev \<rparr> \<rparr>)
       \<and> v4l2_ctrl_s_ctrl exposure exposure_update V4L2_CID_EXPOSURE e uninit st_on =
           Some (0, on_e)
       \<and> exposure on_e = (exposure st)\<lparr> val := ev \<rparr>
       \<and> imx294_set_ctrl V4L2_CID_ANALOGUE_GAIN ga uninit st = Some (0, st)
       \<and> v4l2_ctrl_s_ctrl analogue_gain analogue_gain_update V4L2_CID_ANALOGUE_GAIN g uninit st =
           Some (0, st\<lparr> analogue_gain := (analogue_gain st)\<lparr> val := gv \<rparr> \<rparr>)
       \<and> v4l2_ctrl_s_ctrl analogue_gain analogue_gain_update V4L2_CID_ANALOGUE_GAIN g uninit
             st_on = Some (0, on_g)
       \<and> analogue_gain on_g = (analogue_gain st)\<lparr> val := gv \<rparr>"
proof -
  let ?R = "\<lambda>mn mx. v4l2_ctrl_modify_range (exposure st) (sint mn) (sint mx) 1
               (sint (ucast (clamp_t_u32 uninit mn mx) :: u64))"
  have pon: "rpm st_on \<noteq> RPM_NOT_IN_USE" using on by simp
  have f: "mode st_on = mode st" "HMAX st_on = HMAX st" "VMAX st_on = VMAX st"
      "exposure st_on = exposure st" "analogue_gain st_on = analogue_gain st"
      "i2c_sent st_on = i2c_sent st" "i2c_fails st_on = i2c_fails st"
    using on by simp_all
  have "(ucast (ucast (HMAX st) :: u64) :: u32) \<noteq> 0"
    using hm by (simp add: ucast_u16_u64_u32_eq_0)
  then have "calculate_min_max_v4l2_cid_exposure (ucast (HMAX st)) (ucast vm)
               (min_SHR (mode st)) 0 (ucast (integration_offset (mode st))) \<noteq> None"
    by (simp add: calculate_min_max_None_iff)
  then obtain mn mx where mm: "calculate_min_max_v4l2_cid_exposure (ucast (HMAX st)) (ucast vm)
               (min_SHR (mode st)) 0 (ucast (integration_offset (mode st))) = Some (mn, mx)"
    by auto
  have v1: "imx294_set_ctrl V4L2_CID_VBLANK x uninit st =
      Some (0, st\<lparr> VMAX := vm, exposure := ?R mn mx \<rparr>)"
    using sc vm mm off by (rule imx294_set_ctrl_vblank_standby)
  have sc': "(ucast (VMAX_scale (mode st_on)) :: u32) \<noteq> 0" using sc f by simp
  have vm': "vm = (ucast (((ucast (height (mode st_on)) :: u64) + scast x)
                     div ucast (ucast (VMAX_scale (mode st_on)) :: u32)) :: u32)"
    using vm f by simp
  have mm': "calculate_min_max_v4l2_cid_exposure (ucast (HMAX st_on)) (ucast vm)
               (min_SHR (mode st_on)) 0 (ucast (integration_offset (mode st_on))) = Some (mn, mx)"
    using mm f by simp
  obtain ret_v on_v where v2: "imx294_set_ctrl V4L2_CID_VBLANK x uninit st_on = Some (ret_v, on_v)"
      "VMAX on_v = vm" "exposure on_v = ?R mn mx"
    using imx294_set_ctrl_vblank_in_use [OF sc' vm' mm' pon refl, of uninit] f by auto
  have h1: "imx294_set_ctrl V4L2_CID_HBLANK hb uninit st = Some (0, st)"
    using off by (simp add: imx294_set_ctrl_standby)
  have pr': "do_div (ucast (width (mode st_on)) * 72000000) (min_HMAX (mode st_on)) = Some pr"
    using pr f by simp
  have hx': "do_div (ucast (width (mode st_on) + hb) * 72000000) pr = Some hmx"
    using hx f by simp
  obtain ret_h on_h where h2: "imx294_set_ctrl V4L2_CID_HBLANK hb uninit st_on = Some (ret_h, on_h)"
      "HMAX on_h = ucast hmx"
    using imx294_set_ctrl_hblank_in_use [OF pon pr' hx', of uninit] by auto
  have h3: "v4l2_ctrl_s_ctrl hblank hblank_update V4L2_CID_HBLANK h uninit st =
           Some (0, st\<lparr> hblank := (hblank st)\<lparr> val := hv \<rparr> \<rparr>)"
    using off hv by (simp add: v4l2_ctrl_s_ctrl_standby)
  have e1: "imx294_set_ctrl V4L2_CID_EXPOSURE ex uninit st = Some (0, st)"
    using off by (simp add: imx294_set_ctrl_standby)
  have e2: "v4l2_ctrl_s_ctrl exposure exposure_update V4L2_CID_EXPOSURE e uninit st =
           Some (0, st\<lparr> exposure := (exposure st)\<lparr> val := ev \<rparr> \<rparr>)"
    using off ev by (simp add: v4l2_ctrl_s_ctrl_standby)
  have hm': "HMAX st_on \<noteq> 0" using hm f by simp
  obtain shr where shr: "calculate_shr (word_of_int ev) (ucast (HMAX st_on)) (ucast (VMAX st_on)) 0
      (integration_offset (mode st_on)) = Some shr"
    using calculate_shr_defined [OF hm'] by blast
  have e3: "imx294_set_ctrl V4L2_CID_EXPOSURE (word_of_int ev) uninit st_on =
      Some (0, st_on\<lparr> i2c_sent := i2c_sent st_on @ [buf_2byte IMX294_REG_SHR (ucast shr)] \<rparr>)"
    using imx294_set_ctrl_exposure_in_use [OF pon shr, of uninit] ok f by simp
  have e4: "v4l2_ctrl_s_ctrl exposure exposure_update V4L2_CID_EXPOSURE e uninit st_on =
      Some (0, st_on\<lparr> i2c_sent := i2c_sent st_on @ [buf_2byte IMX294_REG_SHR (ucast shr)],
                       exposure := (exposure st)\<lparr> val := ev \<rparr> \<rparr>)"
    using e3 ev f by (simp add: v4l2_ctrl_s_ctrl_def Let_def)
  have g1: "imx294_set_ctrl V4L2_CID_ANALOGUE_GAIN ga uninit st = Some (0, st)"
    using off by (simp add: imx294_set_ctrl_standby)
  have g2: "v4l2_ctrl_s_ctrl analogue_gain analogue_gain_update V4L2_CID_ANALOGUE_GAIN g uninit st =
           Some (0, st\<lparr> analogue_gain := (analogue_gain st)\<lparr> val := gv \<rparr> \<rparr>)"
    using off gv by (simp add: v4l2_ctrl_s_ctrl_standby)
  have g3: "imx294_set_ctrl V4L2_CID_ANALOGUE_GAIN (word_of_int gv) uninit st_on =
      Some (0, st_on\<lparr> i2c_sent := i2c_sent st_on
                 @ [buf_2byte IMX294_REG_ANALOG_GAIN (ucast (word_of_int gv :: u32))] \<rparr>)"
    using imx294_set_ctrl_gain_in_use [OF pon, of "word_of_int gv" uninit] ok f by simp
  have g4: "v4l2_ctrl_s_ctrl analogue_gain analogue_gain_update V4L2_CID_ANALOGUE_GAIN g uninit
       st_on =
      Some (0, st_on\<lparr> i2c_sent := i2c_sent st_on
                 @ [buf_2byte IMX294_REG_ANALOG_GAIN (ucast (word_of_int gv :: u32))],
               analogue_gain := (analogue_gain st)\<lparr> val := gv \<rparr> \<rparr>)"
    using g3 gv f by (simp add: v4l2_ctrl_s_ctrl_def Let_def)
  show ?thesis
    apply (rule exI [of _ mn], rule exI [of _ mx], rule exI [of _ ret_v], rule exI [of _ on_v])
    apply (rule exI [of _ ret_h], rule exI [of _ on_h])
    apply (simp only: mm v1 v2 h1 h2 h3 e1 e2 e4 g1 g2 g4)
    apply simp
    done
qed

theorem set_ctrl_in_standby_witness:
  "rpm attached_standby = RPM_NOT_IN_USE
   \<and> attached_in_use = attached_standby\<lparr> rpm := RPM_IN_USE \<rparr>
   \<and> (ucast (VMAX_scale (mode attached_standby)) :: u32) \<noteq> 0
   \<and> HMAX attached_standby \<noteq> 0
   \<and> \<not> i2c_fails attached_standby (length (i2c_sent attached_standby))
   \<and> (1236 :: u32) = ucast (((ucast (height (mode attached_standby)) :: u64) + scast (288 :: u32))
                           div ucast (ucast (VMAX_scale (mode attached_standby)) :: u32))
   \<and> do_div (ucast (width (mode attached_standby)) * 72000000) (min_HMAX (mode attached_standby))
       = Some 265925133
   \<and> do_div (ucast (width (mode attached_standby) + 0) * 72000000) 265925133 = Some 1122
   \<and> (288 :: int) = clamp_int 288 (minimum (exposure attached_standby))
                        (maximum (exposure attached_standby))
   \<and> (100 :: int) = clamp_int 100 (minimum (analogue_gain attached_standby))
                        (maximum (analogue_gain attached_standby))
   \<and> (288 :: int) = clamp_int 288 (minimum (hblank attached_standby))
                        (maximum (hblank attached_standby))
   \<and> imx294_set_ctrl V4L2_CID_VBLANK 288 0 attached_standby =
       Some (0, attached_standby\<lparr> VMAX := 1236, exposure :=
         \<lparr> minimum = 4, maximum = 1231, step = 1, default_value = 4, val = 1000 \<rparr> \<rparr>)
   \<and> (\<exists>ret_v on_v. imx294_set_ctrl V4L2_CID_VBLANK 288 0 attached_in_use = Some (ret_v, on_v)
         \<and> VMAX on_v = 1236
         \<and> exposure on_v
             = \<lparr> minimum = 4, maximum = 1231, step = 1, default_value = 4, val = 1000 \<rparr>)
   \<and> imx294_set_ctrl V4L2_CID_HBLANK 0 0 attached_standby = Some (0, attached_standby)
   \<and> (\<exists>ret_h on_h. imx294_set_ctrl V4L2_CID_HBLANK 0 0 attached_in_use = Some (ret_h, on_h)
         \<and> HMAX on_h = 1122)
   \<and> v4l2_ctrl_s_ctrl hblank hblank_update V4L2_CID_HBLANK 288 0 attached_standby =
       Some (0, attached_standby\<lparr> hblank := (hblank attached_standby)\<lparr> val := 288 \<rparr> \<rparr>)
   \<and> v4l2_ctrl_s_ctrl exposure exposure_update V4L2_CID_EXPOSURE 288 0 attached_standby =
       Some (0, attached_standby\<lparr> exposure := (exposure attached_standby)\<lparr> val := 288 \<rparr> \<rparr>)
   \<and> (\<exists>on_e. v4l2_ctrl_s_ctrl exposure exposure_update V4L2_CID_EXPOSURE 288 0 attached_in_use
           = Some (0, on_e)
         \<and> exposure on_e = (exposure attached_standby)\<lparr> val := 288 \<rparr>)
   \<and> v4l2_ctrl_s_ctrl analogue_gain analogue_gain_update V4L2_CID_ANALOGUE_GAIN 100 0
         attached_standby =
       Some (0, attached_standby\<lparr> analogue_gain := (analogue_gain attached_standby)\<lparr> val := 100 \<rparr> \<rparr>)
   \<and> (\<exists>on_g. v4l2_ctrl_s_ctrl analogue_gain analogue_gain_update V4L2_CID_ANALOGUE_GAIN 100 0
           attached_in_use = Some (0, on_g)
         \<and> analogue_gain on_g = (analogue_gain attached_standby)\<lparr> val := 100 \<rparr>)"
proof -
  note f = attached_fields mode_01_fields
  have off: "rpm attached_standby = RPM_NOT_IN_USE" by (simp add: f)
  have on: "attached_in_use = attached_standby\<lparr> rpm := RPM_IN_USE \<rparr>"
    by (rule attached_in_use_def)
  have sc: "(ucast (VMAX_scale (mode attached_standby)) :: u32) \<noteq> 0" by (simp add: f)
  have hm: "HMAX attached_standby \<noteq> 0" by (simp add: f)
  have ok: "\<not> i2c_fails attached_standby (length (i2c_sent attached_standby))"
    by (rule attached_controls)
  have vm: "(1236 :: u32) = ucast (((ucast (height (mode attached_standby)) :: u64)
                + scast (288 :: u32))
              div ucast (ucast (VMAX_scale (mode attached_standby)) :: u32))"
    by (simp add: f)
  have pr: "do_div (ucast (width (mode attached_standby)) * 72000000)
      (min_HMAX (mode attached_standby)) = Some 265925133"
    by (simp add: f do_div_def)
  have hx: "do_div (ucast (width (mode attached_standby) + 0) * 72000000) 265925133 = Some 1122"
    by (simp add: f do_div_def)
  have ev: "(288 :: int) = clamp_int 288 (minimum (exposure attached_standby))
                        (maximum (exposure attached_standby))"
    by (simp add: attached_controls clamp_int_def)
  have gv: "(100 :: int) = clamp_int 100 (minimum (analogue_gain attached_standby))
                        (maximum (analogue_gain attached_standby))"
    by (simp add: attached_controls clamp_int_def)
  have hv: "(288 :: int) = clamp_int 288 (minimum (hblank attached_standby))
                        (maximum (hblank attached_standby))"
    by (simp add: attached_controls clamp_int_def)
  have mm: "calculate_min_max_v4l2_cid_exposure (ucast (HMAX attached_standby))
             (ucast (1236 :: u32)) (min_SHR (mode attached_standby)) 0
             (ucast (integration_offset (mode attached_standby))) = Some (4, 1231)"
    by (simp add: f bounds_1200_1236)
  have R: "v4l2_ctrl_modify_range (exposure attached_standby) (sint (4 :: u64))
      (sint (1231 :: u64)) 1 (sint (ucast (clamp_t_u32 0 4 1231) :: u64))
     = \<lparr> minimum = 4, maximum = 1231, step = 1, default_value = 4, val = 1000 \<rparr>"
    by (simp add: attached_controls v4l2_ctrl_modify_range_def clamp_int_def clamp_t_u32_def)
  obtain mn mx ret_v on_v ret_h on_h on_e on_g where t:
      "calculate_min_max_v4l2_cid_exposure (ucast (HMAX attached_standby)) (ucast (1236 :: u32))
           (min_SHR (mode attached_standby)) 0 (ucast (integration_offset (mode attached_standby)))
         = Some (mn, mx)"
      "imx294_set_ctrl V4L2_CID_VBLANK 288 0 attached_standby =
           Some (0, attached_standby\<lparr> VMAX := 1236, exposure :=
             v4l2_ctrl_modify_range (exposure attached_standby) (sint mn) (sint mx) 1
               (sint (ucast (clamp_t_u32 0 mn mx) :: u64)) \<rparr>)"
      "imx294_set_ctrl V4L2_CID_VBLANK 288 0 attached_in_use = Some (ret_v, on_v)"
      "VMAX on_v = 1236"
      "exposure on_v =
             v4l2_ctrl_modify_range (exposure attached_standby) (sint mn) (sint mx) 1
               (sint (ucast (clamp_t_u32 0 mn mx) :: u64))"
      "imx294_set_ctrl V4L2_CID_HBLANK 0 0 attached_standby = Some (0, attached_standby)"
      "imx294_set_ctrl V4L2_CID_HBLANK 0 0 attached_in_use = Some (ret_h, on_h)"
      "HMAX on_h = ucast (1122 :: u64)"
      "v4l2_ctrl_s_ctrl hblank hblank_update V4L2_CID_HBLANK 288 0 attached_standby =
           Some (0, attached_standby\<lparr> hblank := (hblank attached_standby)\<lparr> val := 288 \<rparr> \<rparr>)"
      "v4l2_ctrl_s_ctrl exposure exposure_update V4L2_CID_EXPOSURE 288 0 attached_standby =
           Some (0, attached_standby\<lparr> exposure := (exposure attached_standby)\<lparr> val := 288 \<rparr> \<rparr>)"
      "v4l2_ctrl_s_ctrl exposure exposure_update V4L2_CID_EXPOSURE 288 0 attached_in_use =
           Some (0, on_e)"
      "exposure on_e = (exposure attached_standby)\<lparr> val := 288 \<rparr>"
      "v4l2_ctrl_s_ctrl analogue_gain analogue_gain_update V4L2_CID_ANALOGUE_GAIN 100 0
          attached_standby =
           Some (0, attached_standby\<lparr> analogue_gain := (analogue_gain attached_standby)\<lparr> val := 100 \<rparr> \<rparr>)"
      "v4l2_ctrl_s_ctrl analogue_gain analogue_gain_update V4L2_CID_ANALOGUE_GAIN 100 0
             attached_in_use = Some (0, on_g)"
      "analogue_gain on_g = (analogue_gain attached_standby)\<lparr> val := 100 \<rparr>"
    using set_ctrl_in_standby [where uninit = 0 and ex = 288 and ga = 100,
        OF off on sc hm ok vm pr hx ev gv hv]
    by blast
  have m: "mn = 4" "mx = 1231" using t(1) mm by simp_all
  have h: "HMAX on_h = 1122" using t(8) by simp
  note v = t(2,5) [unfolded m R]
  show ?thesis
    using off on sc hm ok vm pr hx ev gv hv v t(3,4,6,7) h t(9-15)
    by (intro conjI) (assumption | blast)+
qed

section \<open>Framing limits\<close>

lemma bind_defined:
  assumes "\<exists>x. A = Some x \<and> Q x"
    and "\<And>x. Q x \<Longrightarrow> \<exists>y. g x = Some y \<and> R y"
  shows "\<exists>y. Option.bind A g = Some y \<and> R y"
  using assms by auto

lemma v4l2_ctrl_s_ctrl_hblank_defined:
  assumes m: "mode st = m"
    and rng: "minimum (hblank st) = 0" "maximum (hblank st) = IMX294_HMAX_MAX"
    and hv: "hv = (word_of_int (clamp_int v 0 IMX294_HMAX_MAX) :: u32)"
    and r1: "do_div (ucast (width m) * 72000000) (min_HMAX m) = Some pr"
    and hm: "do_div (ucast (width m + hv) * 72000000) pr = Some hmx"
    and h0: "HMAX st \<noteq> 0" "(ucast hmx :: u16) \<noteq> 0"
  shows "\<exists>p. v4l2_ctrl_s_ctrl hblank hblank_update V4L2_CID_HBLANK v u st = Some p
           \<and> mode (snd p) = m \<and> HMAX (snd p) \<noteq> 0"
proof (cases "rpm st = RPM_NOT_IN_USE")
  case True
  have "imx294_set_ctrl V4L2_CID_HBLANK hv u st = Some (0, st)"
    using True by (simp add: imx294_set_ctrl_standby)
  then show ?thesis
    using m rng hv h0 by (simp add: v4l2_ctrl_s_ctrl_def Let_def)
next
  case False
  obtain ret where "imx294_set_ctrl V4L2_CID_HBLANK hv u st =
     Some (ret, st\<lparr> HMAX := ucast hmx,
       i2c_sent := i2c_sent st @ [buf_2byte IMX294_REG_HMAX (ucast hmx),
         buf_2byte IMX294_REG_HCOUNT1 (ucast hmx), buf_2byte IMX294_REG_HCOUNT2 (ucast hmx)] \<rparr>)"
    using imx294_set_ctrl_hblank_in_use [OF False, of pr hv hmx u] r1 hm m by auto
  then show ?thesis
    using m rng hv h0 by (simp add: v4l2_ctrl_s_ctrl_def Let_def)
qed

lemma v4l2_ctrl_s_ctrl_vblank_defined:
  assumes m: "mode st = m"
    and sc: "(ucast (VMAX_scale m) :: u32) \<noteq> 0"
    and hm: "HMAX st \<noteq> 0"
  shows "\<exists>p. v4l2_ctrl_s_ctrl vblank vblank_update V4L2_CID_VBLANK v u st = Some p
           \<and> mode (snd p) = m"
proof -
  have sc': "(ucast (VMAX_scale (mode st)) :: u32) \<noteq> 0" using sc m by simp
  obtain ret st' where "imx294_set_ctrl V4L2_CID_VBLANK
        (word_of_int (clamp_int v (minimum (vblank st)) (maximum (vblank st)))) u st
      = Some (ret, st')" and "mode st' = mode st"
    using imx294_set_ctrl_vblank [OF sc' hm refl refl, of _ u] by blast
  then show ?thesis
    using m by (simp add: v4l2_ctrl_s_ctrl_def Let_def)
qed

lemma imx294_set_framing_limits_defined:
  assumes m: "mode st = m"
    and r2: "do_div (ucast (width m) * 72000000 * 2) (min_HMAX m) = Some rate"
    and hv: "hv = (word_of_int (clamp_int (sint (ucast
                ((default_HMAX m * rate) div 72000000 - ucast (width m)) :: u32))
                0 IMX294_HMAX_MAX) :: u32)"
    and r1: "do_div (ucast (width m) * 72000000) (min_HMAX m) = Some pr"
    and hm: "do_div (ucast (width m + hv) * 72000000) pr = Some hmx"
    and h0: "(ucast (default_HMAX m) :: u16) \<noteq> 0" "(ucast hmx :: u16) \<noteq> 0"
    and sc: "(ucast (VMAX_scale m) :: u32) \<noteq> 0"
  shows "\<exists>st'. imx294_set_framing_limits u st = Some st'
           \<and> pixel_rate st' = \<lparr> minimum = sint rate, maximum = sint rate, step = 1,
                                 default_value = sint rate, val = sint rate \<rparr>
           \<and> mode st' = m"
  unfolding imx294_set_framing_limits_def Let_def m
  apply (rule bind_defined [where Q = "\<lambda>x. x = rate"])
   apply (insert r2, simp) [1]
  apply (rule bind_defined [where Q = "\<lambda>x. x = default_HMAX m * rate div 72000000"])
   apply (simp add: do_div_def)
  apply hypsubst
  apply (rule bind_defined [where Q = "\<lambda>p. mode (snd p) = m \<and> HMAX (snd p) \<noteq> 0"])
   apply (rule v4l2_ctrl_s_ctrl_hblank_defined [where hv = hv and pr = pr and hmx = hmx])
         apply (simp add: m)
        apply (simp add: v4l2_ctrl_modify_range_def)
       apply (simp add: v4l2_ctrl_modify_range_def)
      apply (rule hv)
     apply (rule r1)
    apply (rule hm)
   apply (insert h0, simp) [1]
  apply (rule h0)
  apply (simp add: split_beta)
  apply (rule bind_defined [where Q = "\<lambda>p. mode (snd p) = m"])
   apply (rule v4l2_ctrl_s_ctrl_vblank_defined)
     apply simp
    apply (rule sc)
   apply simp
  apply (simp add: split_beta v4l2_ctrl_modify_range_def clamp_int_def)
  done

lemma set_framing_limits_mode_01:
  "\<exists>st'. imx294_set_framing_limits u (st\<lparr> mode := mode_01 \<rparr>) = Some st'
      \<and> pixel_rate st' = \<lparr> minimum = 531850267, maximum = 531850267, step = 1,
            default_value = 531850267, val = 531850267 \<rparr>
      \<and> mode st' = mode_01"
  using imx294_set_framing_limits_defined [where m = mode_01 and rate = 531850267
      and hv = 4720 and pr = 265925133 and hmx = 2399 and st = "st\<lparr> mode := mode_01 \<rparr>" and u = u]
  by (simp add: mode_01_def do_div_def clamp_int_def IMX294_HMAX_MAX_def)

lemma set_framing_limits_mode_01A:
  "\<exists>st'. imx294_set_framing_limits u (st\<lparr> mode := mode_01A \<rparr>) = Some st'
      \<and> pixel_rate st' = \<lparr> minimum = 504483221, maximum = 504483221, step = 1,
            default_value = 504483221, val = 504483221 \<rparr>
      \<and> mode st' = mode_01A"
  using imx294_set_framing_limits_defined [where m = mode_01A and rate = 504483221
      and hv = 4232 and pr = 252241610 and hmx = 2399 and st = "st\<lparr> mode := mode_01A \<rparr>" and u = u]
  by (simp add: mode_01A_def do_div_def clamp_int_def IMX294_HMAX_MAX_def)

lemma set_framing_limits_mode_01B:
  "\<exists>st'. imx294_set_framing_limits u (st\<lparr> mode := mode_01B \<rparr>) = Some st'
      \<and> pixel_rate st' = \<lparr> minimum = 528500473, maximum = 528500473, step = 1,
            default_value = 528500473, val = 528500473 \<rparr>
      \<and> mode st' = mode_01B"
  using imx294_set_framing_limits_defined [where m = mode_01B and rate = 528500473
      and hv = 4936 and pr = 264250236 and hmx = 2399 and st = "st\<lparr> mode := mode_01B \<rparr>" and u = u]
  by (simp add: mode_01B_def do_div_def clamp_int_def IMX294_HMAX_MAX_def)

lemma set_framing_limits_mode_00:
  "\<exists>st'. imx294_set_framing_limits u (st\<lparr> mode := mode_00 \<rparr>) = Some st'
      \<and> pixel_rate st' = \<lparr> minimum = 533250000, maximum = 533250000, step = 1,
            default_value = 533250000, val = 533250000 \<rparr>
      \<and> mode st' = mode_00"
  using imx294_set_framing_limits_defined [where m = mode_00 and rate = 533250000
      and hv = 10094 and pr = 266625000 and hmx = 3749 and st = "st\<lparr> mode := mode_00 \<rparr>" and u = u]
  by (simp add: mode_00_def do_div_def clamp_int_def IMX294_HMAX_MAX_def)

text \<open>
  C4, as stated, fails. When the first catalog mode becomes active the published pixel
  rate is 531850267, twice the 265925133 of the specification's formula:
  \<open>imx294_set_framing_limits\<close> multiplies by \<open>72000000 * 2\<close>.
\<close>

theorem published_pixel_rate_is_doubled:
  "map_option (val \<circ> pixel_rate) (imx294_set_framing_limits 0 attached_standby) = Some 531850267
   \<and> pixelRate_spec (mode attached_standby) = 265925133"
proof -
  have "attached_standby\<lparr> mode := mode_01 \<rparr> = attached_standby"
    by (simp add: attached_standby_def)
  then have "map_option (val \<circ> pixel_rate) (imx294_set_framing_limits 0 attached_standby)
      = Some 531850267"
    using set_framing_limits_mode_01 [of 0 attached_standby] by auto
  moreover have "pixelRate_spec (mode attached_standby) = 265925133"
    by (simp add: pixelRate_spec_def attached_standby_def mode_01_def)
  ultimately show ?thesis by simp
qed

text \<open>
  C4, amended. For every catalog mode, whatever the state of the device, making the mode
  active succeeds and publishes \<open>mode.width * 72000000 * 2 div mode.min_HMAX\<close> as the
  pixel rate: 531850267, 504483221, 528500473 and 533250000 for the four modes.
\<close>

theorem published_pixel_rate:
  "map (\<lambda>m. map_option (val \<circ> pixel_rate) (imx294_set_framing_limits uninit (st\<lparr> mode := m \<rparr>)))
       supported_modes_12bit
     = map (\<lambda>m. Some (uint (width m) * 72000000 * 2 div uint (min_HMAX m))) supported_modes_12bit
   \<and> map (\<lambda>m. uint (width m) * 72000000 * 2 div uint (min_HMAX m)) supported_modes_12bit
     = [531850267, 504483221, 528500473, 533250000]"
proof -
  have a: "map_option (val \<circ> pixel_rate) (imx294_set_framing_limits uninit (st\<lparr> mode := mode_01 \<rparr>))
      = Some 531850267"
    using set_framing_limits_mode_01 [of uninit st] by auto
  have b: "map_option (val \<circ> pixel_rate) (imx294_set_framing_limits uninit (st\<lparr> mode := mode_01A \<rparr>))
      = Some 504483221"
    using set_framing_limits_mode_01A [of uninit st] by auto
  have c: "map_option (val \<circ> pixel_rate) (imx294_set_framing_limits uninit (st\<lparr> mode := mode_01B \<rparr>))
      = Some 528500473"
    using set_framing_limits_mode_01B [of uninit st] by auto
  have d: "map_option (val \<circ> pixel_rate) (imx294_set_framing_limits uninit (st\<lparr> mode := mode_00 \<rparr>))
      = Some 533250000"
    using set_framing_limits_mode_00 [of uninit st] by auto
  have e: "map (\<lambda>m. uint (width m) * 72000000 * 2 div uint (min_HMAX m)) supported_modes_12bit
     = [531850267, 504483221, 528500473, 533250000]"
    by (simp add: supported_modes_12bit_def mode_01_def mode_01A_def mode_01B_def mode_00_def)
  have "map (\<lambda>m. map_option (val \<circ> pixel_rate) (imx294_set_framing_limits uninit (st\<lparr> mode := m \<rparr>)))
       supported_modes_12bit = [Some 531850267, Some 504483221, Some 528500473, Some 533250000]"
    using a b c d by (simp add: supported_modes_12bit_def)
  moreover have "map (\<lambda>m. Some (uint (width m) * 72000000 * 2 div uint (min_HMAX m))) supported_modes_12bit
      = [Some 531850267, Some 504483221, Some 528500473, Some 533250000]"
    by (simp add: supported_modes_12bit_def mode_01_def mode_01A_def mode_01B_def mode_00_def)
  ultimately show ?thesis using e by simp
qed

section \<open>Claims about device setup\<close>

lemma probe_attached:
  "imx294_probe platform_ok 0 (devm_kzalloc (\<lambda>n. False) (\<lambda>reg len. Some [0]))
     = Some (0, True, attached_standby)"
  by (simp add: imx294_probe_def platform_ok_def devm_kzalloc_def imx294_power_on_def
     imx294_identify_module_def imx294_read_reg_def get_unaligned_be32_def IMX294_XCLK_FREQ_def
     imx294_set_default_format_def supported_modes_12bit_def imx294_init_controls_def
     imx294_set_framing_limits_def Let_def mode_01_def do_div_def v4l2_ctrl_s_ctrl_def
     v4l2_ctrl_modify_range_def v4l2_ctrl_new_std_def clamp_int_def imx294_set_ctrl_def
     pm_runtime_get_if_in_use_def calculate_min_max_v4l2_cid_exposure_def
     calculate_v4l2_cid_exposure_def clamp_t_u32_def min_t_u64_def attached_standby_def
     IMX294_HMAX_MAX_def IMX294_VMAX_MAX_def IMX294_EXPOSURE_MIN_def IMX294_EXPOSURE_MAX_def
     IMX294_EXPOSURE_STEP_def IMX294_EXPOSURE_DEFAULT_def IMX294_ANA_GAIN_MIN_def
     IMX294_ANA_GAIN_MAX_def IMX294_ANA_GAIN_STEP_def IMX294_ANA_GAIN_DEFAULT_def zero_ctrl_def
     MEDIA_BUS_FMT_SGBRG12_1X12_def)

text \<open>
  C9. \<open>imx294_identify_module\<close> reads the identity register and returns success whenever
  the read succeeds; the value read is never compared with the expected chip id. On a
  platform where every other step succeeds, \<open>imx294_probe\<close> therefore returns 0 and
  registers the device whatever bytes the device answers, for instance \<open>0x12\<close>, which
  is not the expected \<open>IMX294_CHIP_ID\<close>.
\<close>

theorem probe_accepts_any_chip_id:
  "map_option (\<lambda>(ret, registered, st). (ret, registered))
     (imx294_probe platform_ok uninit (devm_kzalloc fails (\<lambda>reg len. Some id_bytes)))
     = Some (0, True)
   \<and> imx294_identify_module (devm_kzalloc fails (\<lambda>reg len. Some [0x12])) IMX294_CHIP_ID = 0
   \<and> get_unaligned_be32 [0, 0, 0, 0x12] \<noteq> IMX294_CHIP_ID"
proof -
  let ?st = "devm_kzalloc fails (\<lambda>reg len. Some id_bytes)"
  have id: "imx294_identify_module ?st IMX294_CHIP_ID = 0"
    by (simp add: imx294_identify_module_def imx294_read_reg_def devm_kzalloc_def)
  let ?st1 = "(imx294_set_default_format ?st)\<lparr> rpm := RPM_NOT_IN_USE \<rparr>"
  let ?st2 = "?st1\<lparr> pixel_rate := v4l2_ctrl_new_std 0xffff 0xffff 1 0xffff,
      vblank := v4l2_ctrl_new_std 0 0xfffff 1 0, hblank := v4l2_ctrl_new_std 0 0xffff 1 0,
      exposure := v4l2_ctrl_new_std IMX294_EXPOSURE_MIN IMX294_EXPOSURE_MAX
                                   IMX294_EXPOSURE_STEP IMX294_EXPOSURE_DEFAULT,
      analogue_gain := v4l2_ctrl_new_std IMX294_ANA_GAIN_MIN IMX294_ANA_GAIN_MAX
                                   IMX294_ANA_GAIN_STEP IMX294_ANA_GAIN_DEFAULT \<rparr>"
  have "?st2\<lparr> mode := mode_01 \<rparr> = ?st2"
    by (simp add: imx294_set_default_format_def supported_modes_12bit_def)
  then obtain st' where fl: "imx294_set_framing_limits uninit ?st2 = Some st'"
    using set_framing_limits_mode_01 [of uninit ?st2] by auto
  have "imx294_init_controls platform_ok uninit ?st1 = Some (0, st')"
    using fl by (simp add: imx294_init_controls_def platform_ok_def Let_def)
  then have "imx294_probe platform_ok uninit ?st = Some (0, True, st')"
    using id
    by (simp add: imx294_probe_def platform_ok_def imx294_power_on_def IMX294_XCLK_FREQ_def Let_def)
  moreover have "imx294_identify_module (devm_kzalloc fails (\<lambda>reg len. Some [0x12])) IMX294_CHIP_ID = 0"
    by (simp add: imx294_identify_module_def imx294_read_reg_def devm_kzalloc_def)
  moreover have "get_unaligned_be32 [0, 0, 0, 0x12] \<noteq> IMX294_CHIP_ID"
    by (simp add: get_unaligned_be32_def IMX294_CHIP_ID_def)
  ultimately show ?thesis by simp
qed

end
